theory Spec2Isabelle
  imports Main
begin

section \<open>Real-time session and connection management\<close>

text \<open>
  A shallow embedding of \<^verbatim>\<open>backend/websocket.py\<close> (the connection manager and the
  per-connection message loop), of \<^verbatim>\<open>RealtimeTranscriber\<close> and
  \<^verbatim>\<open>TranscriptionService.transcribe_audio_file\<close> in \<^verbatim>\<open>backend/transcription.py\<close>,
  and of \<^verbatim>\<open>analyze_transcript_with_ai\<close> in \<^verbatim>\<open>backend/main.py\<close>.

  Python objects mutated in place become values passed through and returned. An exception
  is a value of type \<open>error\<close>; an operation returns \<open>Inl e\<close> when it raises \<open>e\<close>, together
  with the state as it was when the exception left it. One coroutine runs at a time, with
  one exception: \<open>broadcast_live\<close> lets other connection tasks call \<open>disconnect\<close> while a
  \<^verbatim>\<open>send_json\<close> of the broadcast is suspended. Other interleavings at an \<^verbatim>\<open>await\<close> are outside
  the model.
\<close>

subsection \<open>Data\<close>

type_synonym meeting_id = string

text \<open>A \<^verbatim>\<open>WebSocket\<close> object is known by its identity only.\<close>

type_synonym WebSocket = nat

type_synonym bytes = "nat list"

datatype error =
    WebSocketDisconnect
  | KeyError string
  | HTTPException nat string
  | RuntimeError string
  | Exception string

text \<open>The JSON values a received dictionary holds; \<open>JNull\<close> is Python's \<^verbatim>\<open>None\<close>.\<close>

datatype json = JNull | JBool bool | JInt int | JStr string

type_synonym data = "string \<rightharpoonup> json"

record Task =
  title :: string
  assignee :: string
  due_date :: string
  priority :: string
  description :: "string option"

record AnalysisResult =
  tasks :: "Task list"
  decisions :: "string list"
  risks :: "string list"
  follow_ups :: "string list"
  summary :: string

text \<open>
  The four dictionaries the server sends, one constructor for each \<^verbatim>\<open>"type"\<close> tag, with the
  other keys of the literal as arguments.
\<close>

datatype message =
    partial_transcript string json
  | analysis_complete string AnalysisResult
  | participant_left string
  | pong

record RealtimeTranscriber =
  buffer :: "string list"

text \<open>
  \<^verbatim>\<open>Set[WebSocket]\<close> is a list without repetitions; its order stands for the order in which
  Python iterates the set, which the language leaves open. The theorems below hold for
  whatever order the list has.
\<close>

record ConnectionManager =
  active_connections :: "meeting_id \<rightharpoonup> WebSocket list"
  transcribers :: "meeting_id \<rightharpoonup> RealtimeTranscriber"

text \<open>
  What the outside world can see of a run: every \<^verbatim>\<open>send_json\<close> call with its receiver and
  whether it returned normally, and every call of the analyzer with its argument.
\<close>

datatype effect =
    SendJson WebSocket message bool
  | AnalyzerCall string

text \<open>What the speech recogniser does with the staged audio file.\<close>

datatype recognition =
    Recognized string
  | UnknownValueError
  | RequestError string
  | RecognizerRaises error

datatype parsed =
    Parsed AnalysisResult
  | JSONDecodeError string
  | ParseRaises error

text \<open>
  The collaborators the code calls and does not define: the framework's \<^verbatim>\<open>accept\<close> and
  \<^verbatim>\<open>send_json\<close> (\<open>None\<close> when the call returns, \<open>Some e\<close> when it raises \<open>e\<close>),
  \<^verbatim>\<open>base64.b64decode\<close>, the recogniser behind \<^verbatim>\<open>recognize_google\<close>, the chat completion
  request (from the transcript placed in the prompt to the response text), and the decoding
  of that text (code fence removal, \<^verbatim>\<open>json.loads\<close>, construction of the result).
\<close>

record env =
  accept :: "WebSocket \<Rightarrow> error option"
  send_json :: "WebSocket \<Rightarrow> message \<Rightarrow> error option"
  b64decode :: "json \<Rightarrow> error + bytes"
  recognize :: "bytes \<Rightarrow> recognition"
  chat_completion :: "string \<Rightarrow> error + string"
  parse_response :: "string \<Rightarrow> parsed"

subsection \<open>Python primitives\<close>

text \<open>\<^verbatim>\<open>k in d\<close>, \<^verbatim>\<open>d[k]\<close>, \<^verbatim>\<open>del d[k]\<close> and \<^verbatim>\<open>d.get(k)\<close> on a dictionary with string keys.\<close>

definition dict_contains :: "(string \<rightharpoonup> 'v) \<Rightarrow> string \<Rightarrow> bool" where
  "dict_contains d k = (d k \<noteq> None)"

definition dict_getitem :: "(string \<rightharpoonup> 'v) \<Rightarrow> string \<Rightarrow> error + 'v" where
  "dict_getitem d k = (case d k of None \<Rightarrow> Inl (KeyError k) | Some v \<Rightarrow> Inr v)"

definition dict_delitem :: "(string \<rightharpoonup> 'v) \<Rightarrow> string \<Rightarrow> error + (string \<rightharpoonup> 'v)" where
  "dict_delitem d k = (case d k of None \<Rightarrow> Inl (KeyError k) | Some v \<Rightarrow> Inr (d(k := None)))"

definition dict_get :: "(string \<rightharpoonup> json) \<Rightarrow> string \<Rightarrow> json" where
  "dict_get d k = (case d k of None \<Rightarrow> JNull | Some v \<Rightarrow> v)"

text \<open>\<^verbatim>\<open>s.add(x)\<close> and \<^verbatim>\<open>s.discard(x)\<close>; neither raises.\<close>

definition set_add :: "'a \<Rightarrow> 'a list \<Rightarrow> 'a list" where
  "set_add x xs = (if x \<in> set xs then xs else xs @ [x])"

definition set_discard :: "'a \<Rightarrow> 'a list \<Rightarrow> 'a list" where
  "set_discard x xs = removeAll x xs"

text \<open>\<^verbatim>\<open>sep.join(xs)\<close>.\<close>

fun join :: "string \<Rightarrow> string list \<Rightarrow> string" where
  "join sep [] = []"
| "join sep [x] = x"
| "join sep (x # y # ys) = x @ sep @ join sep (y # ys)"

subsection \<open>TranscriptionService and RealtimeTranscriber\<close>

definition transcribe_audio_file :: "env \<Rightarrow> bytes \<Rightarrow> error + string" where
  "transcribe_audio_file e audio =
     (case recognize e audio of
        Recognized text \<Rightarrow> Inr text
      | UnknownValueError \<Rightarrow> Inl (Exception ''Could not understand audio'')
      | RequestError r \<Rightarrow> Inl (Exception (''Could not request results; '' @ r))
      | RecognizerRaises x \<Rightarrow> Inl x)"

definition RealtimeTranscriber_init :: RealtimeTranscriber where
  "RealtimeTranscriber_init = \<lparr>buffer = []\<rparr>"

text \<open>
  The chunk is staged in a temporary file that the \<^verbatim>\<open>finally\<close> clause removes on both
  paths; the file system is not part of the state here. The text is appended after the
  transcription has returned, so a raising transcription leaves the buffer as it was.
\<close>

definition process_audio_chunk ::
  "env \<Rightarrow> bytes \<Rightarrow> RealtimeTranscriber \<Rightarrow> (error + string) \<times> RealtimeTranscriber" where
  "process_audio_chunk e audio_chunk self =
     (case transcribe_audio_file e audio_chunk of
        Inl x \<Rightarrow> (Inl x, self)
      | Inr text \<Rightarrow> (Inr text, self\<lparr>buffer := buffer self @ [text]\<rparr>))"

definition get_full_transcript :: "RealtimeTranscriber \<Rightarrow> string" where
  "get_full_transcript self = join '' '' (buffer self)"

definition clear_buffer :: "RealtimeTranscriber \<Rightarrow> RealtimeTranscriber" where
  "clear_buffer self = self\<lparr>buffer := []\<rparr>"

subsection \<open>The analyzer\<close>

definition analyze_transcript_with_ai :: "env \<Rightarrow> string \<Rightarrow> error + AnalysisResult" where
  "analyze_transcript_with_ai e transcript =
     (case chat_completion e transcript of
        Inl x \<Rightarrow> Inl x
      | Inr response_text \<Rightarrow>
          (case parse_response e response_text of
             Parsed result \<Rightarrow> Inr result
           | JSONDecodeError d \<Rightarrow> Inl (HTTPException 500 (''Failed to parse AI response: '' @ d))
           | ParseRaises x \<Rightarrow> Inl x))"

subsection \<open>ConnectionManager\<close>

definition ConnectionManager_init :: ConnectionManager where
  "ConnectionManager_init = \<lparr>active_connections = Map.empty, transcribers = Map.empty\<rparr>"

definition connect ::
  "env \<Rightarrow> WebSocket \<Rightarrow> meeting_id \<Rightarrow> ConnectionManager \<Rightarrow> (error + unit) \<times> ConnectionManager" where
  "connect e websocket mid self =
     (case accept e websocket of
        Some x \<Rightarrow> (Inl x, self)
      | None \<Rightarrow>
          (let self1 =
                 (if \<not> dict_contains (active_connections self) mid
                  then self\<lparr>active_connections := (active_connections self)(mid \<mapsto> []),
                            transcribers := (transcribers self)(mid \<mapsto> RealtimeTranscriber_init)\<rparr>
                  else self)
           in case dict_getitem (active_connections self1) mid of
                Inl x \<Rightarrow> (Inl x, self1)
              | Inr conns \<Rightarrow>
                  (Inr (), self1\<lparr>active_connections :=
                                   (active_connections self1)(mid \<mapsto> set_add websocket conns)\<rparr>)))"

definition disconnect ::
  "WebSocket \<Rightarrow> meeting_id \<Rightarrow> ConnectionManager \<Rightarrow> (error + unit) \<times> ConnectionManager" where
  "disconnect websocket mid self =
     (if dict_contains (active_connections self) mid then
        (case dict_getitem (active_connections self) mid of
           Inl x \<Rightarrow> (Inl x, self)
         | Inr conns \<Rightarrow>
             (let self1 = self\<lparr>active_connections :=
                                 (active_connections self)(mid \<mapsto> set_discard websocket conns)\<rparr>
              in case dict_getitem (active_connections self1) mid of
                   Inl x \<Rightarrow> (Inl x, self1)
                 | Inr conns1 \<Rightarrow>
                     if conns1 = [] then
                       (case dict_delitem (active_connections self1) mid of
                          Inl x \<Rightarrow> (Inl x, self1)
                        | Inr ac \<Rightarrow>
                            (let self2 = self1\<lparr>active_connections := ac\<rparr>
                             in if dict_contains (transcribers self2) mid then
                                  (case dict_delitem (transcribers self2) mid of
                                     Inl x \<Rightarrow> (Inl x, self2)
                                   | Inr ts \<Rightarrow> (Inr (), self2\<lparr>transcribers := ts\<rparr>))
                                else (Inr (), self2)))
                     else (Inr (), self1)))
      else (Inr (), self))"

text \<open>
  The first loop of \<^verbatim>\<open>broadcast\<close> when no other task changes the client set while a send is
  suspended: one \<^verbatim>\<open>send_json\<close> for each connection, every exception caught, the failed
  connections collected in \<^verbatim>\<open>disconnected\<close>. \<open>send_all_live\<close> below is the loop with other
  tasks running.
\<close>

fun send_all ::
  "env \<Rightarrow> message \<Rightarrow> WebSocket list \<Rightarrow> WebSocket list \<Rightarrow> WebSocket list \<times> effect list" where
  "send_all e msg [] disconnected = (disconnected, [])"
| "send_all e msg (connection # rest) disconnected =
     (case send_json e connection msg of
        None \<Rightarrow>
          (case send_all e msg rest disconnected of
             (d, effs) \<Rightarrow> (d, SendJson connection msg True # effs))
      | Some x \<Rightarrow>
          (case send_all e msg rest (set_add connection disconnected) of
             (d, effs) \<Rightarrow> (d, SendJson connection msg False # effs)))"

text \<open>The second loop: \<^verbatim>\<open>self.disconnect\<close> for each collected connection.\<close>

fun disconnect_all ::
  "WebSocket list \<Rightarrow> meeting_id \<Rightarrow> ConnectionManager \<Rightarrow> (error + unit) \<times> ConnectionManager" where
  "disconnect_all [] mid self = (Inr (), self)"
| "disconnect_all (connection # rest) mid self =
     (case disconnect connection mid self of
        (Inl x, self1) \<Rightarrow> (Inl x, self1)
      | (Inr u, self1) \<Rightarrow> disconnect_all rest mid self1)"

definition broadcast ::
  "env \<Rightarrow> meeting_id \<Rightarrow> message \<Rightarrow> ConnectionManager
     \<Rightarrow> (error + unit) \<times> ConnectionManager \<times> effect list" where
  "broadcast e mid msg self =
     (if dict_contains (active_connections self) mid then
        (case dict_getitem (active_connections self) mid of
           Inl x \<Rightarrow> (Inl x, self, [])
         | Inr conns \<Rightarrow>
             (case send_all e msg conns [] of
                (disconnected, effs) \<Rightarrow>
                  (case disconnect_all disconnected mid self of
                     (r, self1) \<Rightarrow> (r, self1, effs))))
      else (Inr (), self, []))"

text \<open>
  \<^verbatim>\<open>broadcast\<close> with other connection tasks running. The \<^verbatim>\<open>for\<close> statement iterates the set
  stored in the registry, not a copy, and \<^verbatim>\<open>await connection.send_json\<close> in its body lets
  other tasks run. \<open>others c\<close> lists the connections for which other tasks call
  \<^verbatim>\<open>manager.disconnect\<close> on this meeting (line 110 of their endpoint) while the send to \<open>c\<close> is
  suspended. Each step of the iterator compares the size of the set with its size when the
  iteration began and raises \<^verbatim>\<open>RuntimeError\<close> when they differ; the \<^verbatim>\<open>for\<close> statement is
  outside the \<^verbatim>\<open>try\<close>, so the exception leaves \<^verbatim>\<open>broadcast\<close> before the second loop.
  A \<open>disconnect\<close> that deletes the meeting has emptied the set first, so the set being
  iterated has the size that \<open>live_size\<close> gives.
\<close>

definition live_size :: "ConnectionManager \<Rightarrow> meeting_id \<Rightarrow> nat" where
  "live_size self mid =
     (case active_connections self mid of None \<Rightarrow> 0 | Some conns \<Rightarrow> length conns)"

fun send_all_live ::
  "(WebSocket \<Rightarrow> WebSocket list) \<Rightarrow> env \<Rightarrow> meeting_id \<Rightarrow> message \<Rightarrow> nat
     \<Rightarrow> WebSocket list \<Rightarrow> WebSocket list \<Rightarrow> ConnectionManager
     \<Rightarrow> (error + WebSocket list) \<times> ConnectionManager \<times> effect list" where
  "send_all_live others e mid msg n [] disconnected self =
     (if live_size self mid \<noteq> n
      then (Inl (RuntimeError ''Set changed size during iteration''), self, [])
      else (Inr disconnected, self, []))"
| "send_all_live others e mid msg n (connection # rest) disconnected self =
     (if live_size self mid \<noteq> n
      then (Inl (RuntimeError ''Set changed size during iteration''), self, [])
      else
        (let self1 = snd (disconnect_all (others connection) mid self)
         in case send_json e connection msg of
              None \<Rightarrow>
                (case send_all_live others e mid msg n rest disconnected self1 of
                   (r, self2, effs) \<Rightarrow> (r, self2, SendJson connection msg True # effs))
            | Some x \<Rightarrow>
                (case send_all_live others e mid msg n rest
                        (set_add connection disconnected) self1 of
                   (r, self2, effs) \<Rightarrow> (r, self2, SendJson connection msg False # effs))))"

definition broadcast_live ::
  "(WebSocket \<Rightarrow> WebSocket list) \<Rightarrow> env \<Rightarrow> meeting_id \<Rightarrow> message \<Rightarrow> ConnectionManager
     \<Rightarrow> (error + unit) \<times> ConnectionManager \<times> effect list" where
  "broadcast_live others e mid msg self =
     (if dict_contains (active_connections self) mid then
        (case dict_getitem (active_connections self) mid of
           Inl x \<Rightarrow> (Inl x, self, [])
         | Inr conns \<Rightarrow>
             (case send_all_live others e mid msg (length conns) conns [] self of
                (Inl x, self1, effs) \<Rightarrow> (Inl x, self1, effs)
              | (Inr disconnected, self1, effs) \<Rightarrow>
                  (case disconnect_all disconnected mid self1 of
                     (r, self2) \<Rightarrow> (r, self2, effs))))
      else (Inr (), self, []))"

definition get_transcriber :: "ConnectionManager \<Rightarrow> meeting_id \<Rightarrow> RealtimeTranscriber option" where
  "get_transcriber self mid = transcribers self mid"

subsection \<open>The message loop of a connection\<close>

text \<open>
  The body of the \<^verbatim>\<open>while True\<close> loop for one received dictionary. The local variable
  \<^verbatim>\<open>transcriber\<close> refers to the object stored in the registry, so appending to its buffer
  changes the registry's entry. A broadcast can delete that entry (every send failed); the
  \<^verbatim>\<open>clear_buffer\<close> call after it then empties an object the registry no longer holds.
\<close>

definition handle_message ::
  "env \<Rightarrow> WebSocket \<Rightarrow> meeting_id \<Rightarrow> data \<Rightarrow> ConnectionManager
     \<Rightarrow> (error + unit) \<times> ConnectionManager \<times> effect list" where
  "handle_message e websocket mid dat manager =
     (case dict_getitem dat ''type'' of
        Inl x \<Rightarrow> (Inl x, manager, [])
      | Inr ty \<Rightarrow>
          if ty = JStr ''audio_chunk'' then
            (case get_transcriber manager mid of
               None \<Rightarrow> (Inr (), manager, [])
             | Some transcriber \<Rightarrow>
                 (case dict_getitem dat ''audio'' of
                    Inl x \<Rightarrow> (Inl x, manager, [])
                  | Inr audio \<Rightarrow>
                      (case b64decode e audio of
                         Inl x \<Rightarrow> (Inl x, manager, [])
                       | Inr audio_bytes \<Rightarrow>
                           (case process_audio_chunk e audio_bytes transcriber of
                              (Inl x, transcriber1) \<Rightarrow>
                                (Inl x,
                                 manager\<lparr>transcribers := (transcribers manager)(mid \<mapsto> transcriber1)\<rparr>,
                                 [])
                            | (Inr text, transcriber1) \<Rightarrow>
                                broadcast e mid
                                  (partial_transcript text (dict_get dat ''timestamp''))
                                  (manager\<lparr>transcribers :=
                                             (transcribers manager)(mid \<mapsto> transcriber1)\<rparr>)))))
          else if ty = JStr ''finalize'' then
            (case get_transcriber manager mid of
               None \<Rightarrow> (Inr (), manager, [])
             | Some transcriber \<Rightarrow>
                 (let full_transcript = get_full_transcript transcriber
                  in case analyze_transcript_with_ai e full_transcript of
                       Inl x \<Rightarrow> (Inl x, manager, [AnalyzerCall full_transcript])
                     | Inr analysis \<Rightarrow>
                         (case broadcast e mid (analysis_complete full_transcript analysis) manager of
                            (Inl x, manager1, effs) \<Rightarrow>
                              (Inl x, manager1, AnalyzerCall full_transcript # effs)
                          | (Inr u, manager1, effs) \<Rightarrow>
                              (Inr (),
                               (case transcribers manager1 mid of
                                  None \<Rightarrow> manager1
                                | Some t \<Rightarrow>
                                    manager1\<lparr>transcribers :=
                                               (transcribers manager1)(mid \<mapsto> clear_buffer t)\<rparr>),
                               AnalyzerCall full_transcript # effs))))
          else if ty = JStr ''ping'' then
            (case send_json e websocket pong of
               None \<Rightarrow> (Inr (), manager, [SendJson websocket pong True])
             | Some x \<Rightarrow> (Inl x, manager, [SendJson websocket pong False]))
          else (Inr (), manager, []))"

text \<open>What \<^verbatim>\<open>receive_json\<close> does in one iteration: it returns a dictionary or raises.\<close>

datatype received = Message data | ReceiveRaises error

text \<open>
  How a run of the endpoint over a finite input stands at its end: still waiting in
  \<^verbatim>\<open>receive_json\<close>, returned after the \<^verbatim>\<open>WebSocketDisconnect\<close> handler, or left by an
  exception that no handler caught.
\<close>

datatype outcome = Awaiting | Returned | Propagated error

text \<open>The \<^verbatim>\<open>except WebSocketDisconnect\<close> clause.\<close>

definition on_disconnect ::
  "env \<Rightarrow> WebSocket \<Rightarrow> meeting_id \<Rightarrow> ConnectionManager
     \<Rightarrow> outcome \<times> ConnectionManager \<times> effect list" where
  "on_disconnect e websocket mid manager =
     (case disconnect websocket mid manager of
        (Inl x, manager1) \<Rightarrow> (Propagated x, manager1, [])
      | (Inr u, manager1) \<Rightarrow>
          (case broadcast e mid (participant_left ''A participant has left'') manager1 of
             (Inl x, manager2, effs) \<Rightarrow> (Propagated x, manager2, effs)
           | (Inr v, manager2, effs) \<Rightarrow> (Returned, manager2, effs)))"

text \<open>
  The \<^verbatim>\<open>try\<close> statement around the loop. Each iteration comes with the behaviour of the
  collaborators during it. An exception ends the loop: \<^verbatim>\<open>WebSocketDisconnect\<close> runs the
  handler, any other exception leaves the endpoint.
\<close>

fun message_loop ::
  "WebSocket \<Rightarrow> meeting_id \<Rightarrow> (env \<times> received) list \<Rightarrow> ConnectionManager
     \<Rightarrow> outcome \<times> ConnectionManager \<times> effect list" where
  "message_loop websocket mid [] manager = (Awaiting, manager, [])"
| "message_loop websocket mid ((e, r) # rest) manager =
     (case (case r of
              ReceiveRaises x \<Rightarrow> (Inl x, manager, [])
            | Message dat \<Rightarrow> handle_message e websocket mid dat manager) of
        (Inr u, manager1, effs) \<Rightarrow>
          (case message_loop websocket mid rest manager1 of
             (out, manager2, effs2) \<Rightarrow> (out, manager2, effs @ effs2))
      | (Inl x, manager1, effs) \<Rightarrow>
          if x = WebSocketDisconnect then
            (case on_disconnect e websocket mid manager1 of
               (out, manager2, effs2) \<Rightarrow> (out, manager2, effs @ effs2))
          else (Propagated x, manager1, effs))"

definition websocket_endpoint ::
  "env \<Rightarrow> WebSocket \<Rightarrow> meeting_id \<Rightarrow> (env \<times> received) list \<Rightarrow> ConnectionManager
     \<Rightarrow> outcome \<times> ConnectionManager \<times> effect list" where
  "websocket_endpoint e websocket mid steps manager =
     (case connect e websocket mid manager of
        (Inl x, manager1) \<Rightarrow> (Propagated x, manager1, [])
      | (Inr u, manager1) \<Rightarrow> message_loop websocket mid steps manager1)"

subsection \<open>Sequences of operations and reference definitions\<close>

text \<open>The transcriber after the chunks of a list have been processed one after the other.\<close>

fun after_chunks :: "env \<Rightarrow> bytes list \<Rightarrow> RealtimeTranscriber \<Rightarrow> RealtimeTranscriber" where
  "after_chunks e [] self = self"
| "after_chunks e (c # cs) self = after_chunks e cs (snd (process_audio_chunk e c self))"

text \<open>
  The transcript as the specification words it: \<open>t1 + " " + t2 + ... + tN\<close>, built from the
  left. It is compared with \<open>join\<close> below.
\<close>

fun space_joined :: "string list \<Rightarrow> string" where
  "space_joined [] = []"
| "space_joined (t # ts) = foldl (\<lambda>acc u. acc @ '' '' @ u) t ts"

text \<open>Calls of \<^verbatim>\<open>connect\<close> and \<^verbatim>\<open>disconnect\<close>, and the manager after a sequence of them.\<close>

datatype operation = Connect WebSocket meeting_id | Disconnect WebSocket meeting_id

fun run_ops :: "env \<Rightarrow> operation list \<Rightarrow> ConnectionManager \<Rightarrow> ConnectionManager" where
  "run_ops e [] self = self"
| "run_ops e (Connect w m # ops) self = run_ops e ops (snd (connect e w m self))"
| "run_ops e (Disconnect w m # ops) self = run_ops e ops (snd (disconnect w m self))"

text \<open>
  The clients of a meeting as the specification counts them: those whose \<^verbatim>\<open>connect\<close> was
  accepted and that have not been disconnected since. It is compared with the registry below.
\<close>

fun connected ::
  "env \<Rightarrow> operation list \<Rightarrow> (meeting_id \<Rightarrow> WebSocket set) \<Rightarrow> meeting_id \<Rightarrow> WebSocket set" where
  "connected e [] cl = cl"
| "connected e (Connect w m # ops) cl =
     connected e ops (if accept e w = None then cl(m := insert w (cl m)) else cl)"
| "connected e (Disconnect w m # ops) cl = connected e ops (cl(m := cl m - {w}))"

text \<open>The client set the registry holds for a meeting, empty when it holds none.\<close>

definition clients :: "ConnectionManager \<Rightarrow> meeting_id \<Rightarrow> WebSocket set" where
  "clients self m = (case active_connections self m of None \<Rightarrow> {} | Some conns \<Rightarrow> set conns)"

text \<open>
  The two dictionaries have the same keys and no registered client set is empty.
\<close>

definition registry_inv :: "ConnectionManager \<Rightarrow> bool" where
  "registry_inv self =
     (\<forall>m. (active_connections self m = None) = (transcribers self m = None) \<and>
          active_connections self m \<noteq> Some [])"

subsection \<open>Example values\<close>

text \<open>
  Collaborators for the concrete runs below: every \<^verbatim>\<open>accept\<close> returns, sending to
  connection 2 fails, the chunk \<open>[0]\<close> is recognised as the empty text, \<open>[1]\<close> and \<open>[2]\<close> as
  words, anything else is not understood, and the response text \<open>bad\<close> is not JSON.
  \<open>b64decode\<close> is base64 on the three audio strings of the dictionaries below
  (\<^verbatim>\<open>AA==\<close> is the byte 0, \<^verbatim>\<open>AQ==\<close> the byte 1, \<^verbatim>\<open>QUJD\<close> the bytes of \<^verbatim>\<open>ABC\<close>); no run uses
  it on another value, where it raises.
\<close>

definition example_env :: env where
  "example_env =
     \<lparr>accept = (\<lambda>w. None),
      send_json = (\<lambda>w msg. if w = 2 then Some (Exception ''closed'') else None),
      b64decode = (\<lambda>j. if j = JStr ''AA=='' then Inr [0]
                        else if j = JStr ''AQ=='' then Inr [1]
                        else if j = JStr ''QUJD'' then Inr [65, 66, 67]
                        else Inl (Exception ''binascii.Error'')),
      recognize = (\<lambda>b. if b = [0] then Recognized []
                        else if b = [1] then Recognized ''hi''
                        else if b = [2] then Recognized ''there''
                        else UnknownValueError),
      chat_completion = (\<lambda>t. Inr t),
      parse_response = (\<lambda>r. if r = ''bad'' then JSONDecodeError ''Expecting value''
                              else Parsed \<lparr>tasks = [], decisions = [], risks = [],
                                           follow_ups = [], summary = r\<rparr>)\<rparr>"

text \<open>A meeting with one client and a meeting with two, each with one fragment transcribed.\<close>

definition solo_manager :: ConnectionManager where
  "solo_manager =
     \<lparr>active_connections = [''standup-1'' \<mapsto> [1]],
      transcribers = [''standup-1'' \<mapsto> \<lparr>buffer = [''hi'']\<rparr>]\<rparr>"

definition pair_manager :: ConnectionManager where
  "pair_manager =
     \<lparr>active_connections = [''standup-1'' \<mapsto> [1, 2]],
      transcribers = [''standup-1'' \<mapsto> \<lparr>buffer = [''hi'']\<rparr>]\<rparr>"

text \<open>
  Received dictionaries. Under \<open>example_env\<close> the audio of \<open>chunk_hi\<close> is recognised as a
  word, that of \<open>chunk_silence\<close> as the empty text, and that of \<open>chunk_noise\<close> is not understood.
\<close>

definition chunk_hi :: data where
  "chunk_hi =
     [''type'' \<mapsto> JStr ''audio_chunk'', ''audio'' \<mapsto> JStr ''AQ=='', ''timestamp'' \<mapsto> JInt 7]"

definition chunk_silence :: data where
  "chunk_silence = [''type'' \<mapsto> JStr ''audio_chunk'', ''audio'' \<mapsto> JStr ''AA=='']"

definition chunk_noise :: data where
  "chunk_noise = [''type'' \<mapsto> JStr ''audio_chunk'', ''audio'' \<mapsto> JStr ''QUJD'']"

definition chunk_without_audio :: data where
  "chunk_without_audio = [''type'' \<mapsto> JStr ''audio_chunk'']"

definition finalize_msg :: data where
  "finalize_msg = [''type'' \<mapsto> JStr ''finalize'']"

definition ping_msg :: data where
  "ping_msg = [''type'' \<mapsto> JStr ''ping'']"

definition ping_without_type :: data where
  "ping_without_type = [''kind'' \<mapsto> JStr ''ping'']"

text \<open>
  A meeting whose buffer is empty, a meeting whose transcript the analyzer of \<open>example_env\<close>
  cannot decode, and collaborators whose analyzer decodes every response.
\<close>

definition fresh_manager :: ConnectionManager where
  "fresh_manager =
     \<lparr>active_connections = [''standup-1'' \<mapsto> [1]],
      transcribers = [''standup-1'' \<mapsto> \<lparr>buffer = []\<rparr>]\<rparr>"

definition bad_manager :: ConnectionManager where
  "bad_manager =
     \<lparr>active_connections = [''standup-1'' \<mapsto> [1, 3]],
      transcribers = [''standup-1'' \<mapsto> \<lparr>buffer = [''bad'']\<rparr>]\<rparr>"

definition lenient_env :: env where
  "lenient_env =
     example_env\<lparr>parse_response :=
       (\<lambda>r. Parsed \<lparr>tasks = [], decisions = [], risks = [], follow_ups = [], summary = r\<rparr>)\<rparr>"

text \<open>
  A meeting with three clients, iterated in the order 2, 3, 1, and two schedules of the
  other tasks: while the send to connection 2 is suspended, the endpoint of connection 2
  itself, or that of connection 3, calls \<open>disconnect\<close>.
\<close>

definition trio_manager :: ConnectionManager where
  "trio_manager =
     \<lparr>active_connections = [''standup-1'' \<mapsto> [2, 3, 1]],
      transcribers = [''standup-1'' \<mapsto> \<lparr>buffer = [''hi'']\<rparr>]\<rparr>"

definition failing_client_leaves :: "WebSocket \<Rightarrow> WebSocket list" where
  "failing_client_leaves c = (if c = 2 then [2] else [])"

definition other_client_leaves :: "WebSocket \<Rightarrow> WebSocket list" where
  "other_client_leaves c = (if c = 2 then [3] else [])"

section \<open>Properties\<close>

subsection \<open>The transcript buffer\<close>

lemma join_Cons: "join sep (t # ts) = t @ concat (map (\<lambda>u. sep @ u) ts)"
  by (induction ts arbitrary: t) simp_all

lemma foldl_sep: "foldl (\<lambda>acc u. acc @ sep @ u) a ts = a @ concat (map (\<lambda>u. sep @ u) ts)"
  by (induction ts arbitrary: a) simp_all

lemma join_space_joined: "join '' '' ts = space_joined ts"
  by (cases ts) (simp_all only: join.simps space_joined.simps join_Cons foldl_sep)

lemma buffer_after_chunks:
  "list_all2 (\<lambda>c t. transcribe_audio_file e c = Inr t) chunks ts \<Longrightarrow>
   buffer (after_chunks e chunks self) = buffer self @ ts"
  by (induction chunks ts arbitrary: self rule: list_all2_induct)
     (simp_all add: process_audio_chunk_def)

text \<open>
  Claim C4. When the chunks of a sequence are transcribed to the non-empty texts
  \<open>t1, ..., tN\<close>, a fresh transcriber that has processed them holds exactly these texts in
  its buffer, in that order, and \<open>get_full_transcript\<close> returns \<open>t1 + " " + ... + tN\<close>.
  \<open>get_full_transcript\<close> only reads the buffer: it returns a string and no transcriber.
\<close>

theorem full_transcript_space_joined:
  assumes "list_all2 (\<lambda>c t. transcribe_audio_file e c = Inr t \<and> t \<noteq> []) chunks ts"
  shows "buffer (after_chunks e chunks RealtimeTranscriber_init) = ts \<and>
         get_full_transcript (after_chunks e chunks RealtimeTranscriber_init) = space_joined ts"
proof -
  from assms have "list_all2 (\<lambda>c t. transcribe_audio_file e c = Inr t) chunks ts"
    by (rule list_all2_mono) simp
  then have "buffer (after_chunks e chunks RealtimeTranscriber_init) = ts"
    by (simp add: buffer_after_chunks RealtimeTranscriber_init_def)
  then show ?thesis
    by (simp add: get_full_transcript_def join_space_joined)
qed

theorem full_transcript_space_joined_witness:
  "list_all2 (\<lambda>c t. transcribe_audio_file example_env c = Inr t \<and> t \<noteq> [])
     [[1], [2]] [''hi'', ''there''] \<and>
   get_full_transcript (after_chunks example_env [[1], [2]] RealtimeTranscriber_init) = ''hi there''"
proof -
  have h: "list_all2 (\<lambda>c t. transcribe_audio_file example_env c = Inr t \<and> t \<noteq> [])
             [[1], [2]] [''hi'', ''there'']"
    by (simp add: transcribe_audio_file_def example_env_def)
  from full_transcript_space_joined[OF h] show ?thesis using h by simp
qed

subsection \<open>The registry: connect and disconnect\<close>

lemma disconnect_absent:
  "active_connections s m = None \<Longrightarrow> disconnect w m s = (Inr (), s)"
  by (simp add: disconnect_def dict_contains_def)

lemma disconnect_present:
  "active_connections s m = Some conns \<Longrightarrow>
   disconnect w m s =
     (Inr (),
      if removeAll w conns = []
      then s\<lparr>active_connections := (active_connections s)(m := None),
             transcribers := (transcribers s)(m := None)\<rparr>
      else s\<lparr>active_connections := (active_connections s)(m \<mapsto> removeAll w conns)\<rparr>)"
  by (cases "transcribers s m")
     (simp_all add: disconnect_def dict_contains_def dict_getitem_def dict_delitem_def
        set_discard_def Let_def fun_upd_idem)

lemma connect_refused:
  "accept e w = Some x \<Longrightarrow> connect e w m s = (Inl x, s)"
  by (simp add: connect_def)

lemma connect_absent:
  "accept e w = None \<Longrightarrow> active_connections s m = None \<Longrightarrow>
   connect e w m s =
     (Inr (), s\<lparr>active_connections := (active_connections s)(m \<mapsto> [w]),
               transcribers := (transcribers s)(m \<mapsto> RealtimeTranscriber_init)\<rparr>)"
  by (simp add: connect_def dict_contains_def dict_getitem_def set_add_def Let_def)

lemma connect_present:
  "accept e w = None \<Longrightarrow> active_connections s m = Some conns \<Longrightarrow>
   connect e w m s =
     (Inr (), s\<lparr>active_connections := (active_connections s)(m \<mapsto> set_add w conns)\<rparr>)"
  by (simp add: connect_def dict_contains_def dict_getitem_def Let_def)

lemma set_set_add: "set (set_add x xs) = insert x (set xs)"
  by (auto simp: set_add_def)

lemma distinct_set_add: "distinct xs \<Longrightarrow> distinct (set_add x xs)"
  by (simp add: set_add_def)

lemma set_add_not_Nil: "set_add x xs \<noteq> []"
  by (simp add: set_add_def) auto

lemma removeAll_Nil_iff: "removeAll w conns = [] \<longleftrightarrow> set conns \<subseteq> {w}"
  by (induction conns) auto

text \<open>
  Claim C8. \<open>disconnect\<close> returns normally for every connection, meeting and manager: no
  dictionary access in it raises. It leaves every other meeting untouched, changes nothing
  when the meeting is not registered or when the connection is not among the clients of a
  non-empty set, and deletes the client set and the transcriber of the meeting exactly when
  no client other than the given one is left; otherwise only the given client is removed.
\<close>

theorem disconnect_total:
  "\<exists>s'. disconnect w m s = (Inr (), s') \<and>
        (\<forall>m'. m' \<noteq> m \<longrightarrow>
           active_connections s' m' = active_connections s m' \<and>
           transcribers s' m' = transcribers s m') \<and>
        (active_connections s m = None \<longrightarrow> s' = s) \<and>
        (\<forall>conns. active_connections s m = Some conns \<longrightarrow>
           (w \<notin> set conns \<and> conns \<noteq> [] \<longrightarrow> s' = s) \<and>
           (set conns \<subseteq> {w} \<longrightarrow>
              active_connections s' m = None \<and> transcribers s' m = None) \<and>
           (\<not> set conns \<subseteq> {w} \<longrightarrow>
              active_connections s' m = Some (removeAll w conns) \<and>
              transcribers s' = transcribers s))"
proof (cases "active_connections s m")
  case None
  then show ?thesis by (simp add: disconnect_absent)
next
  case (Some conns)
  have triv: "w \<notin> set conns \<Longrightarrow>
      s\<lparr>active_connections := (active_connections s)(m \<mapsto> conns)\<rparr> = s"
    using Some by (simp add: fun_upd_idem)
  have ne: "w \<notin> set conns \<Longrightarrow> conns \<noteq> [] \<Longrightarrow> \<not> set conns \<subseteq> {w}"
    by (cases conns) auto
  show ?thesis
    using Some triv ne
    by (auto simp add: disconnect_present removeAll_Nil_iff)
qed

theorem disconnect_total_witness:
  "\<exists>s'. disconnect 1 ''standup-1'' solo_manager = (Inr (), s') \<and>
        active_connections s' ''standup-1'' = None \<and> transcribers s' ''standup-1'' = None \<and>
        active_connections s' ''other'' = active_connections solo_manager ''other''"
proof -
  have c: "active_connections solo_manager ''standup-1'' = Some [1]"
    by (simp add: solo_manager_def)
  from disconnect_total[of 1 "''standup-1''" solo_manager] obtain s' where
    d: "disconnect 1 ''standup-1'' solo_manager = (Inr (), s')" and
    o: "\<forall>m'. m' \<noteq> ''standup-1'' \<longrightarrow>
          active_connections s' m' = active_connections solo_manager m' \<and>
          transcribers s' m' = transcribers solo_manager m'" and
    p: "\<forall>conns. active_connections solo_manager ''standup-1'' = Some conns \<longrightarrow>
          (1 \<notin> set conns \<and> conns \<noteq> [] \<longrightarrow> s' = solo_manager) \<and>
          (set conns \<subseteq> {1} \<longrightarrow>
             active_connections s' ''standup-1'' = None \<and> transcribers s' ''standup-1'' = None) \<and>
          (\<not> set conns \<subseteq> {1} \<longrightarrow>
             active_connections s' ''standup-1'' = Some (removeAll 1 conns) \<and>
             transcribers s' = transcribers solo_manager)"
    by blast
  from p c have "active_connections s' ''standup-1'' = None \<and> transcribers s' ''standup-1'' = None"
    by simp
  moreover from o have "active_connections s' ''other'' = active_connections solo_manager ''other''"
    by simp
  ultimately show ?thesis using d by blast
qed

text \<open>
  Claim C7. When a client set is registered for the meeting and the connection is accepted,
  \<open>connect\<close> returns normally, adds the connection to the existing client set and changes
  nothing else: the transcribers, with their buffers, and the other meetings stay as they
  were. No second session is created.
\<close>

theorem connect_keeps_session:
  assumes "active_connections s m = Some conns" and "accept e w = None"
  shows "connect e w m s =
           (Inr (), s\<lparr>active_connections := (active_connections s)(m \<mapsto> set_add w conns)\<rparr>) \<and>
         transcribers (snd (connect e w m s)) = transcribers s \<and>
         (\<forall>m'. m' \<noteq> m \<longrightarrow>
            active_connections (snd (connect e w m s)) m' = active_connections s m') \<and>
         set (set_add w conns) = insert w (set conns) \<and>
         (w \<in> set conns \<longrightarrow> snd (connect e w m s) = s)"
proof -
  have "w \<in> set conns \<Longrightarrow>
        s\<lparr>active_connections := (active_connections s)(m \<mapsto> set_add w conns)\<rparr> = s"
    using assms(1) by (simp add: set_add_def fun_upd_idem)
  then show ?thesis
    using assms by (simp add: connect_present set_set_add)
qed

theorem connect_keeps_session_witness:
  "active_connections solo_manager ''standup-1'' = Some [1] \<and> accept example_env 2 = None \<and>
   active_connections (snd (connect example_env 2 ''standup-1'' solo_manager)) ''standup-1''
     = Some [1, 2] \<and>
   transcribers (snd (connect example_env 2 ''standup-1'' solo_manager)) ''standup-1''
     = Some \<lparr>buffer = [''hi'']\<rparr>"
proof -
  have a: "active_connections solo_manager ''standup-1'' = Some [1]"
    by (simp add: solo_manager_def)
  have b: "accept example_env 2 = None"
    by (simp add: example_env_def)
  from connect_keeps_session[OF a b] show ?thesis
    using a b by (simp add: set_add_def solo_manager_def)
qed

lemma inv_init: "registry_inv ConnectionManager_init"
  by (simp add: registry_inv_def ConnectionManager_init_def)

lemma clients_init: "clients ConnectionManager_init = (\<lambda>m. {})"
  by (simp add: clients_def ConnectionManager_init_def fun_eq_iff)

lemma inv_present:
  assumes "registry_inv s" and "active_connections s m = Some conns"
  shows "conns \<noteq> []" and "transcribers s m \<noteq> None"
proof -
  from assms(1) have a: "(active_connections s m = None) = (transcribers s m = None)"
    and b: "active_connections s m \<noteq> Some []"
    by (simp_all add: registry_inv_def)
  from b assms(2) show "conns \<noteq> []" by auto
  from a assms(2) show "transcribers s m \<noteq> None" by simp
qed

lemma connect_inv: "registry_inv s \<Longrightarrow> registry_inv (snd (connect e w m s))"
proof (cases "accept e w")
  case None
  assume i: "registry_inv s"
  show ?thesis
  proof (cases "active_connections s m")
    case N: None
    with None i show ?thesis
      by (simp add: connect_absent registry_inv_def)
  next
    case (Some conns)
    from i have "\<forall>k. (active_connections s k = None) = (transcribers s k = None) \<and>
                     active_connections s k \<noteq> Some []"
      by (simp add: registry_inv_def)
    moreover from inv_present(2)[OF i Some] have "transcribers s m \<noteq> None" .
    ultimately show ?thesis
      using None Some by (simp add: connect_present registry_inv_def set_add_not_Nil)
  qed
next
  case (Some x)
  assume "registry_inv s"
  with Some show ?thesis by (simp add: connect_refused)
qed

lemma connect_clients:
  "clients (snd (connect e w m s)) =
     (if accept e w = None then (clients s)(m := insert w (clients s m)) else clients s)"
proof (cases "accept e w")
  case None
  show ?thesis
  proof (cases "active_connections s m")
    case N: None
    with None show ?thesis
      by (simp add: connect_absent clients_def fun_eq_iff)
  next
    case (Some conns)
    with None show ?thesis
      by (simp add: connect_present clients_def fun_eq_iff set_set_add)
  qed
next
  case (Some x)
  then show ?thesis by (simp add: connect_refused)
qed

lemma disconnect_inv: "registry_inv s \<Longrightarrow> registry_inv (snd (disconnect w m s))"
proof (cases "active_connections s m")
  case None
  assume "registry_inv s"
  with None show ?thesis by (simp add: disconnect_absent)
next
  case (Some conns)
  assume i: "registry_inv s"
  from i have "\<forall>k. (active_connections s k = None) = (transcribers s k = None) \<and>
                   active_connections s k \<noteq> Some []"
    by (simp add: registry_inv_def)
  moreover from inv_present(2)[OF i Some] have "transcribers s m \<noteq> None" .
  ultimately show ?thesis
    using Some by (simp add: disconnect_present registry_inv_def)
qed

lemma disconnect_clients:
  "clients (snd (disconnect w m s)) = (clients s)(m := clients s m - {w})"
proof (cases "active_connections s m")
  case None
  then show ?thesis by (simp add: disconnect_absent clients_def fun_eq_iff)
next
  case (Some conns)
  then show ?thesis
    by (auto simp add: disconnect_present clients_def fun_eq_iff removeAll_Nil_iff)
qed

lemma run_ops_inv: "registry_inv s \<Longrightarrow> registry_inv (run_ops e ops s)"
  by (induction e ops s rule: run_ops.induct) (simp_all add: connect_inv disconnect_inv)

lemma run_ops_clients: "clients (run_ops e ops s) = connected e ops (clients s)"
  by (induction e ops s rule: run_ops.induct)
     (simp_all only: run_ops.simps connected.simps connect_clients disconnect_clients)

lemma inv_session_iff:
  assumes "registry_inv s"
  shows "(active_connections s m \<noteq> None) = (clients s m \<noteq> {})"
    and "(transcribers s m \<noteq> None) = (clients s m \<noteq> {})"
proof -
  show a: "(active_connections s m \<noteq> None) = (clients s m \<noteq> {})"
  proof (cases "active_connections s m")
    case None
    then show ?thesis by (simp add: clients_def)
  next
    case (Some conns)
    with inv_present(1)[OF assms Some] show ?thesis by (simp add: clients_def)
  qed
  from assms have "(transcribers s m \<noteq> None) = (active_connections s m \<noteq> None)"
    by (simp add: registry_inv_def)
  with a show "(transcribers s m \<noteq> None) = (clients s m \<noteq> {})" by simp
qed

text \<open>
  Claim C6. After any sequence of \<open>connect\<close> and \<open>disconnect\<close> calls on the initial manager, a
  meeting has a client set in the registry exactly when it has a transcriber, exactly when
  at least one accepted client has not been disconnected, and the registered set is the set
  of these clients. When the last client of a meeting disconnects, in any manager and with
  any transcript accumulated, the meeting has neither client set nor transcriber afterwards,
  and an accepted \<open>connect\<close> for it then registers a transcriber with the empty buffer.
\<close>

theorem session_iff_connected_client:
  "(active_connections (run_ops e ops ConnectionManager_init) m \<noteq> None
      \<longleftrightarrow> connected e ops (\<lambda>m. {}) m \<noteq> {}) \<and>
   (get_transcriber (run_ops e ops ConnectionManager_init) m \<noteq> None
      \<longleftrightarrow> connected e ops (\<lambda>m. {}) m \<noteq> {}) \<and>
   (\<forall>conns. active_connections (run_ops e ops ConnectionManager_init) m = Some conns
      \<longrightarrow> set conns = connected e ops (\<lambda>m. {}) m) \<and>
   (active_connections s m = Some cs \<and> set cs \<subseteq> {w} \<longrightarrow>
      get_transcriber (snd (disconnect w m s)) m = None \<and>
      active_connections (snd (disconnect w m s)) m = None \<and>
      (accept e w' = None \<longrightarrow>
         fst (connect e w' m (snd (disconnect w m s))) = Inr () \<and>
         get_transcriber (snd (connect e w' m (snd (disconnect w m s)))) m
           = Some \<lparr>buffer = []\<rparr> \<and>
         active_connections (snd (connect e w' m (snd (disconnect w m s)))) m = Some [w']))"
proof -
  let ?s = "run_ops e ops ConnectionManager_init"
  have i: "registry_inv ?s" by (simp add: run_ops_inv inv_init)
  have c: "clients ?s = connected e ops (\<lambda>m. {})"
    by (simp add: run_ops_clients clients_init)
  have 1: "(active_connections ?s m \<noteq> None) = (connected e ops (\<lambda>m. {}) m \<noteq> {})"
    using inv_session_iff(1)[OF i, of m] c by simp
  have 2: "(get_transcriber ?s m \<noteq> None) = (connected e ops (\<lambda>m. {}) m \<noteq> {})"
    using inv_session_iff(2)[OF i, of m] c by (simp add: get_transcriber_def)
  have 3: "\<forall>conns. active_connections ?s m = Some conns
             \<longrightarrow> set conns = connected e ops (\<lambda>m. {}) m"
    using c by (auto simp: clients_def fun_eq_iff split: option.splits)
  have 4: "active_connections s m = Some cs \<and> set cs \<subseteq> {w} \<longrightarrow>
      get_transcriber (snd (disconnect w m s)) m = None \<and>
      active_connections (snd (disconnect w m s)) m = None \<and>
      (accept e w' = None \<longrightarrow>
         fst (connect e w' m (snd (disconnect w m s))) = Inr () \<and>
         get_transcriber (snd (connect e w' m (snd (disconnect w m s)))) m
           = Some \<lparr>buffer = []\<rparr> \<and>
         active_connections (snd (connect e w' m (snd (disconnect w m s)))) m = Some [w'])"
  proof (intro impI, elim conjE)
    assume a: "active_connections s m = Some cs" and b: "set cs \<subseteq> {w}"
    let ?d = "snd (disconnect w m s)"
    from a b have d: "?d = s\<lparr>active_connections := (active_connections s)(m := None),
                             transcribers := (transcribers s)(m := None)\<rparr>"
      by (simp add: disconnect_present removeAll_Nil_iff)
    then have n: "active_connections ?d m = None" by simp
    show "get_transcriber ?d m = None \<and> active_connections ?d m = None \<and>
      (accept e w' = None \<longrightarrow>
         fst (connect e w' m ?d) = Inr () \<and>
         get_transcriber (snd (connect e w' m ?d)) m = Some \<lparr>buffer = []\<rparr> \<and>
         active_connections (snd (connect e w' m ?d)) m = Some [w'])"
      using n d
      by (auto simp add: connect_absent get_transcriber_def RealtimeTranscriber_init_def)
  qed
  from 1 2 3 4 show ?thesis by blast
qed

theorem session_iff_connected_client_witness:
  "connected example_env [Connect 1 ''standup-1'', Connect 2 ''standup-1'',
      Disconnect 1 ''standup-1''] (\<lambda>m. {}) ''standup-1'' = {2} \<and>
   get_transcriber (run_ops example_env [Connect 1 ''standup-1'', Connect 2 ''standup-1'',
      Disconnect 1 ''standup-1''] ConnectionManager_init) ''standup-1'' \<noteq> None \<and>
   active_connections solo_manager ''standup-1'' = Some [1] \<and> set [1::nat] \<subseteq> {1} \<and>
   accept example_env 3 = None \<and>
   get_transcriber (snd (disconnect 1 ''standup-1'' solo_manager)) ''standup-1'' = None \<and>
   get_transcriber
     (snd (connect example_env 3 ''standup-1'' (snd (disconnect 1 ''standup-1'' solo_manager))))
     ''standup-1'' = Some \<lparr>buffer = []\<rparr>"
proof -
  let ?ops = "[Connect 1 ''standup-1'', Connect 2 ''standup-1'', Disconnect 1 ''standup-1'']"
  have a: "connected example_env ?ops (\<lambda>m. {}) ''standup-1'' = {2}"
    by (simp add: example_env_def) auto
  have b: "active_connections solo_manager ''standup-1'' = Some [1]"
    by (simp add: solo_manager_def)
  have c: "accept example_env 3 = None"
    by (simp add: example_env_def)
  have d: "set [1::nat] \<subseteq> {1}" by simp
  note th = session_iff_connected_client[of example_env ?ops "''standup-1''" solo_manager "[1]" 1 3]
  from th have "(get_transcriber (run_ops example_env ?ops ConnectionManager_init) ''standup-1''
                  \<noteq> None) = (connected example_env ?ops (\<lambda>m. {}) ''standup-1'' \<noteq> {})"
    by blast
  then have g: "get_transcriber (run_ops example_env ?ops ConnectionManager_init) ''standup-1''
                  \<noteq> None"
    unfolding a by simp
  from th b c d have
    "get_transcriber (snd (disconnect 1 ''standup-1'' solo_manager)) ''standup-1'' = None \<and>
     get_transcriber
       (snd (connect example_env 3 ''standup-1'' (snd (disconnect 1 ''standup-1'' solo_manager))))
       ''standup-1'' = Some \<lparr>buffer = []\<rparr>"
    by blast
  with a b c d g show ?thesis by blast
qed

subsection \<open>Broadcast\<close>

lemma disconnect_all_absent:
  "active_connections s m = None \<Longrightarrow> disconnect_all ds m s = (Inr (), s)"
  by (induction ds) (simp_all add: disconnect_absent)

lemma removeAll_filter: "removeAll d conns = filter (\<lambda>c. c \<noteq> d) conns"
  by (induction conns) auto

lemma disconnect_all_present:
  "active_connections s m = Some conns \<Longrightarrow>
   disconnect_all ds m s =
     (Inr (),
      if ds = [] then s
      else if filter (\<lambda>c. c \<notin> set ds) conns = []
      then s\<lparr>active_connections := (active_connections s)(m := None),
             transcribers := (transcribers s)(m := None)\<rparr>
      else s\<lparr>active_connections := (active_connections s)(m \<mapsto> filter (\<lambda>c. c \<notin> set ds) conns)\<rparr>)"
proof (induction ds arbitrary: s conns)
  case Nil
  then show ?case by simp
next
  case (Cons d ds)
  show ?case
  proof (cases "removeAll d conns = []")
    case True
    then have "filter (\<lambda>c. c \<notin> set (d # ds)) conns = []"
      by (auto simp: removeAll_filter filter_empty_conv)
    with True Cons.prems show ?thesis
      by (simp add: disconnect_present disconnect_all_absent)
  next
    case False
    let ?s1 = "s\<lparr>active_connections := (active_connections s)(m \<mapsto> removeAll d conns)\<rparr>"
    have s1: "active_connections ?s1 m = Some (removeAll d conns)" by simp
    have f: "filter (\<lambda>c. c \<notin> set ds) (removeAll d conns) = filter (\<lambda>c. c \<notin> set (d # ds)) conns"
      by (simp add: removeAll_filter conj_commute)
    show ?thesis
      using False Cons.prems Cons.IH[OF s1]
      by (auto simp add: disconnect_present f removeAll_filter)
  qed
qed

lemma send_all_disconnected:
  "set (fst (send_all e msg cs d)) = set d \<union> {c \<in> set cs. send_json e c msg \<noteq> None}"
  by (induction cs arbitrary: d) (auto simp: set_set_add split_beta split: option.splits)

lemma send_all_effects:
  "snd (send_all e msg cs d) = map (\<lambda>c. SendJson c msg (send_json e c msg = None)) cs"
  by (induction cs arbitrary: d) (simp_all add: split_beta split: option.splits)

lemma broadcast_absent:
  "active_connections s m = None \<Longrightarrow> broadcast e m msg s = (Inr (), s, [])"
  by (simp add: broadcast_def dict_contains_def)

lemma broadcast_unfold:
  "active_connections s m = Some conns \<Longrightarrow>
   broadcast e m msg s =
     (fst (disconnect_all (fst (send_all e msg conns [])) m s),
      snd (disconnect_all (fst (send_all e msg conns [])) m s),
      snd (send_all e msg conns []))"
  by (simp add: broadcast_def dict_contains_def dict_getitem_def split: prod.splits)

lemma broadcast_present:
  assumes "active_connections s m = Some conns"
  shows "broadcast e m msg s =
     (Inr (),
      (if \<forall>c\<in>set conns. send_json e c msg = None then s
       else if \<forall>c\<in>set conns. send_json e c msg \<noteq> None
       then s\<lparr>active_connections := (active_connections s)(m := None),
              transcribers := (transcribers s)(m := None)\<rparr>
       else s\<lparr>active_connections :=
                (active_connections s)(m \<mapsto> filter (\<lambda>c. send_json e c msg = None) conns)\<rparr>),
      map (\<lambda>c. SendJson c msg (send_json e c msg = None)) conns)"
proof -
  let ?ds = "fst (send_all e msg conns [])"
  have sd: "set ?ds = {c \<in> set conns. send_json e c msg \<noteq> None}"
    by (simp add: send_all_disconnected)
  have e: "(?ds = []) = (\<forall>c\<in>set conns. send_json e c msg = None)"
  proof -
    have "(?ds = []) = (set ?ds = {})" by simp
    also have "\<dots> = (\<forall>c\<in>set conns. send_json e c msg = None)"
      unfolding sd by auto
    finally show ?thesis .
  qed
  have f: "filter (\<lambda>c. c \<notin> set ?ds) conns = filter (\<lambda>c. send_json e c msg = None) conns"
    unfolding sd by (rule filter_cong) auto
  have g: "(filter (\<lambda>c. send_json e c msg = None) conns = [])
             = (\<forall>c\<in>set conns. send_json e c msg \<noteq> None)"
    by (simp add: filter_empty_conv)
  show ?thesis
    unfolding broadcast_unfold[OF assms] disconnect_all_present[OF assms] f
    by (simp only: fst_conv snd_conv send_all_effects e g)
qed

lemma disconnect_all_failed:
  assumes "active_connections s m = Some conns"
  shows "disconnect_all (filter (\<lambda>c. send_json e c msg \<noteq> None) conns) m s =
         (Inr (), fst (snd (broadcast e m msg s)))"
proof -
  let ?ds = "filter (\<lambda>c. send_json e c msg \<noteq> None) conns"
  have e: "(?ds = []) = (\<forall>c\<in>set conns. send_json e c msg = None)"
    by (simp add: filter_empty_conv)
  have f: "filter (\<lambda>c. c \<notin> set ?ds) conns = filter (\<lambda>c. send_json e c msg = None) conns"
    by (rule filter_cong) auto
  have g: "(filter (\<lambda>c. send_json e c msg = None) conns = [])
             = (\<forall>c\<in>set conns. send_json e c msg \<noteq> None)"
    by (simp add: filter_empty_conv)
  show ?thesis
    unfolding broadcast_present[OF assms] disconnect_all_present[OF assms] f
    by (simp only: fst_conv snd_conv e g)
qed

lemma broadcast_returns: "fst (broadcast e m msg s) = Inr ()"
  by (cases "active_connections s m") (simp_all add: broadcast_absent broadcast_present)

lemma broadcast_some_delivered:
  assumes "active_connections s m = Some conns"
    and "\<exists>c\<in>set conns. send_json e c msg = None"
  shows "active_connections (fst (snd (broadcast e m msg s))) m
           = Some (filter (\<lambda>c. send_json e c msg = None) conns)"
    and "transcribers (fst (snd (broadcast e m msg s))) = transcribers s"
proof -
  from assms(2) have na: "\<not> (\<forall>c\<in>set conns. send_json e c msg \<noteq> None)" by blast
  have "active_connections (fst (snd (broadcast e m msg s))) m
           = Some (filter (\<lambda>c. send_json e c msg = None) conns) \<and>
        transcribers (fst (snd (broadcast e m msg s))) = transcribers s"
  proof (cases "\<forall>c\<in>set conns. send_json e c msg = None")
    case True
    then have "filter (\<lambda>c. send_json e c msg = None) conns = conns"
      by (simp add: filter_id_conv)
    with True assms(1) show ?thesis by (simp add: broadcast_present[OF assms(1)])
  next
    case False
    from False na have "fst (snd (broadcast e m msg s)) =
        s\<lparr>active_connections :=
            (active_connections s)(m \<mapsto> filter (\<lambda>c. send_json e c msg = None) conns)\<rparr>"
      unfolding broadcast_present[OF assms(1)]
      by (simp only: fst_conv snd_conv if_not_P if_False if_True)
    then show ?thesis by simp
  qed
  then show "active_connections (fst (snd (broadcast e m msg s))) m
           = Some (filter (\<lambda>c. send_json e c msg = None) conns)"
    and "transcribers (fst (snd (broadcast e m msg s))) = transcribers s"
    by simp_all
qed

text \<open>
  Broadcast with no other task running during the sends. A broadcast to a registered
  meeting returns normally. Every client whose send succeeds is sent the message, whichever
  other sends fail. The manager afterwards is the one that \<open>disconnect\<close>, called for each
  client whose send failed, leaves: for a single failed client it is the result of
  \<open>disconnect\<close> for that client; when every send failed the client set and the transcriber
  of the meeting are deleted; when some send succeeded exactly the clients whose send
  succeeded remain and the transcribers are unchanged.
\<close>

theorem broadcast_independent_sends:
  assumes "active_connections s m = Some conns"
  shows "fst (broadcast e m msg s) = Inr () \<and>
         (\<forall>c\<in>set conns. send_json e c msg = None \<longrightarrow>
            SendJson c msg True \<in> set (snd (snd (broadcast e m msg s)))) \<and>
         disconnect_all (filter (\<lambda>c. send_json e c msg \<noteq> None) conns) m s
           = (Inr (), fst (snd (broadcast e m msg s))) \<and>
         (\<forall>c. filter (\<lambda>c. send_json e c msg \<noteq> None) conns = [c] \<longrightarrow>
            disconnect c m s = (Inr (), fst (snd (broadcast e m msg s)))) \<and>
         (conns \<noteq> [] \<and> (\<forall>c\<in>set conns. send_json e c msg \<noteq> None) \<longrightarrow>
            active_connections (fst (snd (broadcast e m msg s))) m = None \<and>
            transcribers (fst (snd (broadcast e m msg s))) m = None) \<and>
         ((\<exists>c\<in>set conns. send_json e c msg = None) \<longrightarrow>
            active_connections (fst (snd (broadcast e m msg s))) m
              = Some (filter (\<lambda>c. send_json e c msg = None) conns) \<and>
            transcribers (fst (snd (broadcast e m msg s))) = transcribers s)"
proof -
  have 1: "fst (broadcast e m msg s) = Inr ()"
    by (simp add: broadcast_present[OF assms])
  have 2: "\<forall>c\<in>set conns. send_json e c msg = None \<longrightarrow>
            SendJson c msg True \<in> set (snd (snd (broadcast e m msg s)))"
    by (auto simp add: broadcast_present[OF assms])
  note 3 = disconnect_all_failed[OF assms, of e msg]
  have 4: "\<forall>c. filter (\<lambda>c. send_json e c msg \<noteq> None) conns = [c] \<longrightarrow>
            disconnect c m s = (Inr (), fst (snd (broadcast e m msg s)))"
  proof (intro allI impI)
    fix c assume "filter (\<lambda>c. send_json e c msg \<noteq> None) conns = [c]"
    with 3 have "disconnect_all [c] m s = (Inr (), fst (snd (broadcast e m msg s)))" by simp
    then show "disconnect c m s = (Inr (), fst (snd (broadcast e m msg s)))"
      by (simp add: disconnect_present[OF assms] split: if_splits)
  qed
  have 5: "conns \<noteq> [] \<and> (\<forall>c\<in>set conns. send_json e c msg \<noteq> None) \<longrightarrow>
            active_connections (fst (snd (broadcast e m msg s))) m = None \<and>
            transcribers (fst (snd (broadcast e m msg s))) m = None"
  proof (intro impI, elim conjE)
    assume ne: "conns \<noteq> []" and all: "\<forall>c\<in>set conns. send_json e c msg \<noteq> None"
    from ne obtain c where "c \<in> set conns" by (cases conns) auto
    with all have nall: "\<not> (\<forall>c\<in>set conns. send_json e c msg = None)" by blast
    from nall all have "fst (snd (broadcast e m msg s)) =
        s\<lparr>active_connections := (active_connections s)(m := None),
          transcribers := (transcribers s)(m := None)\<rparr>"
      unfolding broadcast_present[OF assms] by (simp only: fst_conv snd_conv if_not_P if_P if_False if_True)
    then show "active_connections (fst (snd (broadcast e m msg s))) m = None \<and>
            transcribers (fst (snd (broadcast e m msg s))) m = None"
      by simp
  qed
  have 6: "(\<exists>c\<in>set conns. send_json e c msg = None) \<longrightarrow>
            active_connections (fst (snd (broadcast e m msg s))) m
              = Some (filter (\<lambda>c. send_json e c msg = None) conns) \<and>
            transcribers (fst (snd (broadcast e m msg s))) = transcribers s"
  proof
    assume ex: "\<exists>c\<in>set conns. send_json e c msg = None"
    then have na: "\<not> (\<forall>c\<in>set conns. send_json e c msg \<noteq> None)" by blast
    show "active_connections (fst (snd (broadcast e m msg s))) m
              = Some (filter (\<lambda>c. send_json e c msg = None) conns) \<and>
            transcribers (fst (snd (broadcast e m msg s))) = transcribers s"
    proof (cases "\<forall>c\<in>set conns. send_json e c msg = None")
      case True
      then have "filter (\<lambda>c. send_json e c msg = None) conns = conns"
        by (simp add: filter_id_conv)
      with True assms show ?thesis by (simp add: broadcast_present[OF assms])
    next
      case False
      from False na have "fst (snd (broadcast e m msg s)) =
          s\<lparr>active_connections :=
              (active_connections s)(m \<mapsto> filter (\<lambda>c. send_json e c msg = None) conns)\<rparr>"
        unfolding broadcast_present[OF assms] by (simp only: fst_conv snd_conv if_not_P if_False if_True)
      then show ?thesis by simp
    qed
  qed
  from 1 2 3 4 5 6 show ?thesis by blast
qed

theorem broadcast_independent_sends_witness:
  "active_connections pair_manager ''standup-1'' = Some [1, 2] \<and>
   send_json example_env 1 (participant_left ''bye'') = None \<and>
   send_json example_env 2 (participant_left ''bye'') \<noteq> None \<and>
   SendJson 1 (participant_left ''bye'') True
     \<in> set (snd (snd (broadcast example_env ''standup-1'' (participant_left ''bye'') pair_manager))) \<and>
   active_connections
     (fst (snd (broadcast example_env ''standup-1'' (participant_left ''bye'') pair_manager)))
     ''standup-1'' = Some [1] \<and>
   disconnect 2 ''standup-1'' pair_manager =
     (Inr (), fst (snd (broadcast example_env ''standup-1'' (participant_left ''bye'') pair_manager)))"
proof -
  have a: "active_connections pair_manager ''standup-1'' = Some [1, 2]"
    by (simp add: pair_manager_def)
  have b: "send_json example_env 1 (participant_left ''bye'') = None"
    and c: "send_json example_env 2 (participant_left ''bye'') \<noteq> None"
    by (simp_all add: example_env_def)
  from broadcast_independent_sends[OF a, of example_env "participant_left ''bye''"] b c
  show ?thesis using a by simp
qed

text \<open>With no other task running during the sends, \<open>broadcast_live\<close> is \<open>broadcast\<close>.\<close>

lemma send_all_live_alone:
  assumes "\<forall>c. others c = []" and "live_size self mid = n"
  shows "send_all_live others e mid msg n cs d self =
           (Inr (fst (send_all e msg cs d)), self, snd (send_all e msg cs d))"
  using assms by (induction cs arbitrary: d) (simp_all add: split_beta split: option.splits)

lemma broadcast_live_alone:
  assumes "\<forall>c. others c = []"
  shows "broadcast_live others e mid msg self = broadcast e mid msg self"
proof (cases "active_connections self mid")
  case None
  then show ?thesis by (simp add: broadcast_live_def broadcast_def dict_contains_def)
next
  case (Some conns)
  then have "live_size self mid = length conns" by (simp add: live_size_def)
  from send_all_live_alone[OF assms this] Some show ?thesis
    by (simp add: broadcast_live_def broadcast_def dict_contains_def dict_getitem_def split_beta)
qed

text \<open>
  Claim C5 fails in the code when the client set changes during a send. In a meeting with
  the clients 2, 3 and 1, where only the send to 2 fails, a broadcast with no other task
  running sends to all three and removes 2. When the endpoint of the failing client 2 calls
  \<open>disconnect\<close> while the send to 2 is suspended, the next step of the iteration raises
  \<^verbatim>\<open>RuntimeError\<close>: the broadcast does not return normally and the clients 3 and 1 are sent
  nothing. When the endpoint of client 3 does so instead, the same happens, and client 2,
  whose send failed, stays in the client set: the loop that removes failed clients is never
  reached.
\<close>

theorem broadcast_set_changed_during_send:
  "send_json example_env 2 (partial_transcript ''hi'' JNull) \<noteq> None \<and>
   send_json example_env 3 (partial_transcript ''hi'' JNull) = None \<and>
   send_json example_env 1 (partial_transcript ''hi'' JNull) = None \<and>
   fst (broadcast example_env ''standup-1'' (partial_transcript ''hi'' JNull) trio_manager)
     = Inr () \<and>
   snd (snd (broadcast example_env ''standup-1'' (partial_transcript ''hi'' JNull) trio_manager))
     = [SendJson 2 (partial_transcript ''hi'' JNull) False,
        SendJson 3 (partial_transcript ''hi'' JNull) True,
        SendJson 1 (partial_transcript ''hi'' JNull) True] \<and>
   active_connections
     (fst (snd (broadcast example_env ''standup-1'' (partial_transcript ''hi'' JNull) trio_manager)))
     ''standup-1'' = Some [3, 1] \<and>
   fst (broadcast_live failing_client_leaves example_env ''standup-1''
          (partial_transcript ''hi'' JNull) trio_manager)
     = Inl (RuntimeError ''Set changed size during iteration'') \<and>
   snd (snd (broadcast_live failing_client_leaves example_env ''standup-1''
          (partial_transcript ''hi'' JNull) trio_manager))
     = [SendJson 2 (partial_transcript ''hi'' JNull) False] \<and>
   active_connections
     (fst (snd (broadcast_live failing_client_leaves example_env ''standup-1''
          (partial_transcript ''hi'' JNull) trio_manager)))
     ''standup-1'' = Some [3, 1] \<and>
   fst (broadcast_live other_client_leaves example_env ''standup-1''
          (partial_transcript ''hi'' JNull) trio_manager)
     = Inl (RuntimeError ''Set changed size during iteration'') \<and>
   snd (snd (broadcast_live other_client_leaves example_env ''standup-1''
          (partial_transcript ''hi'' JNull) trio_manager))
     = [SendJson 2 (partial_transcript ''hi'' JNull) False] \<and>
   active_connections
     (fst (snd (broadcast_live other_client_leaves example_env ''standup-1''
          (partial_transcript ''hi'' JNull) trio_manager)))
     ''standup-1'' = Some [2, 1]"
  by (simp add: broadcast_def broadcast_live_def live_size_def dict_contains_def
        dict_getitem_def dict_delitem_def disconnect_def set_add_def set_discard_def
        failing_client_leaves_def other_client_leaves_def trio_manager_def example_env_def)

subsection \<open>Handling one message\<close>

lemma handle_no_type:
  "dat ''type'' = None \<Longrightarrow> handle_message e w m dat s = (Inl (KeyError ''type''), s, [])"
  by (simp add: handle_message_def dict_getitem_def)

lemma handle_chunk_no_session:
  "dat ''type'' = Some (JStr ''audio_chunk'') \<Longrightarrow> get_transcriber s m = None \<Longrightarrow>
   handle_message e w m dat s = (Inr (), s, [])"
  by (simp add: handle_message_def dict_getitem_def)

lemma handle_chunk_no_audio:
  "dat ''type'' = Some (JStr ''audio_chunk'') \<Longrightarrow> get_transcriber s m = Some t \<Longrightarrow>
   dat ''audio'' = None \<Longrightarrow>
   handle_message e w m dat s = (Inl (KeyError ''audio''), s, [])"
  by (simp add: handle_message_def dict_getitem_def)

lemma handle_chunk_failed:
  "dat ''type'' = Some (JStr ''audio_chunk'') \<Longrightarrow> get_transcriber s m = Some t \<Longrightarrow>
   dat ''audio'' = Some a \<Longrightarrow> b64decode e a = Inr bs \<Longrightarrow>
   transcribe_audio_file e bs = Inl x \<Longrightarrow>
   handle_message e w m dat s = (Inl x, s, [])"
  by (simp add: handle_message_def dict_getitem_def process_audio_chunk_def
        get_transcriber_def fun_upd_idem)

lemma handle_chunk_ok:
  "dat ''type'' = Some (JStr ''audio_chunk'') \<Longrightarrow> get_transcriber s m = Some t \<Longrightarrow>
   dat ''audio'' = Some a \<Longrightarrow> b64decode e a = Inr bs \<Longrightarrow>
   transcribe_audio_file e bs = Inr text \<Longrightarrow>
   handle_message e w m dat s =
     broadcast e m (partial_transcript text (dict_get dat ''timestamp''))
       (s\<lparr>transcribers := (transcribers s)(m \<mapsto> t\<lparr>buffer := buffer t @ [text]\<rparr>)\<rparr>)"
  by (simp add: handle_message_def dict_getitem_def process_audio_chunk_def)

lemma handle_finalize_failed:
  "dat ''type'' = Some (JStr ''finalize'') \<Longrightarrow> get_transcriber s m = Some t \<Longrightarrow>
   analyze_transcript_with_ai e (get_full_transcript t) = Inl x \<Longrightarrow>
   handle_message e w m dat s = (Inl x, s, [AnalyzerCall (get_full_transcript t)])"
  by (simp add: handle_message_def dict_getitem_def)

lemma handle_finalize_ok:
  assumes "dat ''type'' = Some (JStr ''finalize'')" and "get_transcriber s m = Some t"
    and "analyze_transcript_with_ai e (get_full_transcript t) = Inr a"
    and "broadcast e m (analysis_complete (get_full_transcript t) a) s = (r, s1, effs)"
  shows "handle_message e w m dat s =
     (Inr (),
      (case transcribers s1 m of
         None \<Rightarrow> s1
       | Some u \<Rightarrow> s1\<lparr>transcribers := (transcribers s1)(m \<mapsto> clear_buffer u)\<rparr>),
      AnalyzerCall (get_full_transcript t) # effs)"
proof -
  from broadcast_returns[of e m "analysis_complete (get_full_transcript t) a" s] assms(4)
  have "r = Inr ()" by simp
  with assms show ?thesis
    by (simp add: handle_message_def dict_getitem_def Let_def)
qed

subsection \<open>Audio chunks\<close>

text \<open>
  Claim C1, as the code has it. When the transcription of an audio chunk raises, the chunk
  is dropped: the manager, and with it the transcript buffer, is unchanged and nothing is
  sent to any client. The exception is not caught in the loop body. The two failures that
  \<open>transcribe_audio_file\<close> translates are never \<open>WebSocketDisconnect\<close>, and an exception other
  than \<open>WebSocketDisconnect\<close> leaves the endpoint: the loop stops, the messages after it are
  not processed, and neither \<open>disconnect\<close> nor the broadcast of the handler runs.
\<close>

theorem failed_transcription_ends_loop:
  assumes "dat ''type'' = Some (JStr ''audio_chunk'')" and "get_transcriber s m = Some t"
    and "dat ''audio'' = Some a" and "b64decode e a = Inr bs"
    and "transcribe_audio_file e bs = Inl x"
  shows "handle_message e w m dat s = (Inl x, s, []) \<and>
         (recognize e bs = UnknownValueError \<or> (\<exists>r. recognize e bs = RequestError r)
            \<longrightarrow> x \<noteq> WebSocketDisconnect) \<and>
         (x \<noteq> WebSocketDisconnect \<longrightarrow>
            message_loop w m ((e, Message dat) # rest) s = (Propagated x, s, []))"
proof -
  note h = handle_chunk_failed[where dat=dat and w=w, OF assms]
  have 1: "recognize e bs = UnknownValueError \<or> (\<exists>r. recognize e bs = RequestError r)
            \<longrightarrow> x \<noteq> WebSocketDisconnect"
    using assms(5) by (auto simp: transcribe_audio_file_def)
  have 2: "x \<noteq> WebSocketDisconnect \<longrightarrow>
            message_loop w m ((e, Message dat) # rest) s = (Propagated x, s, [])"
    by (simp add: h)
  from h 1 2 show ?thesis by blast
qed

theorem failed_transcription_ends_loop_witness:
  "chunk_noise ''type'' = Some (JStr ''audio_chunk'') \<and>
   get_transcriber solo_manager ''standup-1'' = Some \<lparr>buffer = [''hi'']\<rparr> \<and>
   chunk_noise ''audio'' = Some (JStr ''QUJD'') \<and>
   b64decode example_env (JStr ''QUJD'') = Inr [65, 66, 67] \<and>
   transcribe_audio_file example_env [65, 66, 67] = Inl (Exception ''Could not understand audio'') \<and>
   recognize example_env [65, 66, 67] = UnknownValueError \<and>
   handle_message example_env 1 ''standup-1'' chunk_noise solo_manager
     = (Inl (Exception ''Could not understand audio''), solo_manager, []) \<and>
   message_loop 1 ''standup-1'' [(example_env, Message chunk_noise)] solo_manager
     = (Propagated (Exception ''Could not understand audio''), solo_manager, [])"
proof -
  have 1: "chunk_noise ''type'' = Some (JStr ''audio_chunk'')"
    and 3: "chunk_noise ''audio'' = Some (JStr ''QUJD'')"
    by (simp_all add: chunk_noise_def)
  have 2: "get_transcriber solo_manager ''standup-1'' = Some \<lparr>buffer = [''hi'']\<rparr>"
    by (simp add: get_transcriber_def solo_manager_def)
  have 4: "b64decode example_env (JStr ''QUJD'') = Inr [65, 66, 67]"
    by (simp add: example_env_def)
  have 6: "recognize example_env [65, 66, 67] = UnknownValueError"
    by (simp add: example_env_def)
  have 5: "transcribe_audio_file example_env [65, 66, 67] = Inl (Exception ''Could not understand audio'')"
    by (simp add: transcribe_audio_file_def 6)
  have 7: "Exception ''Could not understand audio'' \<noteq> WebSocketDisconnect" by simp
  from failed_transcription_ends_loop[where dat=chunk_noise and w=1 and rest="[]", OF 1 2 3 4 5] 7
  have "handle_message example_env 1 ''standup-1'' chunk_noise solo_manager
     = (Inl (Exception ''Could not understand audio''), solo_manager, []) \<and>
   message_loop 1 ''standup-1'' [(example_env, Message chunk_noise)] solo_manager
     = (Propagated (Exception ''Could not understand audio''), solo_manager, [])"
    by blast
  with 1 2 3 4 5 6 show ?thesis by blast
qed

text \<open>
  The loop does not go on after a failed transcription: a ping that follows an audio chunk
  that is not understood gets no answer, while the same ping alone is answered.
\<close>

theorem loop_continues_counterexample:
  "transcribe_audio_file example_env [65, 66, 67] = Inl (Exception ''Could not understand audio'') \<and>
   message_loop 1 ''standup-1''
       [(example_env, Message chunk_noise), (example_env, Message ping_msg)] solo_manager
     = (Propagated (Exception ''Could not understand audio''), solo_manager, []) \<and>
   message_loop 1 ''standup-1'' [(example_env, Message ping_msg)] solo_manager
     = (Awaiting, solo_manager, [SendJson 1 pong True])"
  by (simp add: handle_message_def dict_getitem_def get_transcriber_def process_audio_chunk_def
        transcribe_audio_file_def chunk_noise_def ping_msg_def solo_manager_def example_env_def)

text \<open>
  Claim C3, as the code has it. When the transcription of an audio chunk returns a text,
  empty or not, the text is appended to the buffer of the meeting's transcriber and a
  \<open>partial_transcript\<close> message with this text and the timestamp of the chunk is broadcast:
  one send to each client of the meeting. When at least one send succeeds, the transcriber
  of the meeting afterwards holds the buffer with the text appended.
\<close>

theorem transcribed_text_appended_and_broadcast:
  assumes "dat ''type'' = Some (JStr ''audio_chunk'')" and "get_transcriber s m = Some t"
    and "dat ''audio'' = Some a" and "b64decode e a = Inr bs"
    and "transcribe_audio_file e bs = Inr text"
  shows "handle_message e w m dat s =
           broadcast e m (partial_transcript text (dict_get dat ''timestamp''))
             (s\<lparr>transcribers := (transcribers s)(m \<mapsto> t\<lparr>buffer := buffer t @ [text]\<rparr>)\<rparr>) \<and>
         fst (handle_message e w m dat s) = Inr () \<and>
         (\<forall>conns. active_connections s m = Some conns \<longrightarrow>
            snd (snd (handle_message e w m dat s))
              = map (\<lambda>c. SendJson c (partial_transcript text (dict_get dat ''timestamp''))
                     (send_json e c (partial_transcript text (dict_get dat ''timestamp'')) = None))
                  conns \<and>
            ((\<exists>c\<in>set conns.
                 send_json e c (partial_transcript text (dict_get dat ''timestamp'')) = None) \<longrightarrow>
               get_transcriber (fst (snd (handle_message e w m dat s))) m
                 = Some (t\<lparr>buffer := buffer t @ [text]\<rparr>)))"
proof -
  let ?msg = "partial_transcript text (dict_get dat ''timestamp'')"
  let ?s1 = "s\<lparr>transcribers := (transcribers s)(m \<mapsto> t\<lparr>buffer := buffer t @ [text]\<rparr>)\<rparr>"
  note h = handle_chunk_ok[where dat=dat and w=w, OF assms]
  have 1: "fst (handle_message e w m dat s) = Inr ()"
    unfolding h by (rule broadcast_returns)
  have 2: "\<forall>conns. active_connections s m = Some conns \<longrightarrow>
            snd (snd (handle_message e w m dat s))
              = map (\<lambda>c. SendJson c ?msg (send_json e c ?msg = None)) conns \<and>
            ((\<exists>c\<in>set conns. send_json e c ?msg = None) \<longrightarrow>
               get_transcriber (fst (snd (handle_message e w m dat s))) m
                 = Some (t\<lparr>buffer := buffer t @ [text]\<rparr>))"
  proof (intro allI impI)
    fix conns assume c: "active_connections s m = Some conns"
    then have c1: "active_connections ?s1 m = Some conns" by simp
    have a: "snd (snd (handle_message e w m dat s))
              = map (\<lambda>c. SendJson c ?msg (send_json e c ?msg = None)) conns"
      unfolding h by (simp add: broadcast_present[OF c1])
    have b: "(\<exists>c\<in>set conns. send_json e c ?msg = None) \<longrightarrow>
               get_transcriber (fst (snd (handle_message e w m dat s))) m
                 = Some (t\<lparr>buffer := buffer t @ [text]\<rparr>)"
    proof
      assume "\<exists>c\<in>set conns. send_json e c ?msg = None"
      then have "transcribers (fst (snd (broadcast e m ?msg ?s1))) = transcribers ?s1"
        by (rule broadcast_some_delivered(2)[OF c1])
      then show "get_transcriber (fst (snd (handle_message e w m dat s))) m
                 = Some (t\<lparr>buffer := buffer t @ [text]\<rparr>)"
        unfolding h by (simp add: get_transcriber_def)
    qed
    from a b show "snd (snd (handle_message e w m dat s))
              = map (\<lambda>c. SendJson c ?msg (send_json e c ?msg = None)) conns \<and>
            ((\<exists>c\<in>set conns. send_json e c ?msg = None) \<longrightarrow>
               get_transcriber (fst (snd (handle_message e w m dat s))) m
                 = Some (t\<lparr>buffer := buffer t @ [text]\<rparr>))" by blast
  qed
  from h 1 2 show ?thesis by blast
qed

theorem transcribed_text_appended_and_broadcast_witness:
  "chunk_hi ''type'' = Some (JStr ''audio_chunk'') \<and>
   get_transcriber pair_manager ''standup-1'' = Some \<lparr>buffer = [''hi'']\<rparr> \<and>
   chunk_hi ''audio'' = Some (JStr ''AQ=='') \<and> b64decode example_env (JStr ''AQ=='') = Inr [1] \<and>
   transcribe_audio_file example_env [1] = Inr ''hi'' \<and>
   active_connections pair_manager ''standup-1'' = Some [1, 2] \<and>
   snd (snd (handle_message example_env 1 ''standup-1'' chunk_hi pair_manager))
     = [SendJson 1 (partial_transcript ''hi'' (JInt 7)) True,
        SendJson 2 (partial_transcript ''hi'' (JInt 7)) False] \<and>
   get_transcriber (fst (snd (handle_message example_env 1 ''standup-1'' chunk_hi pair_manager)))
     ''standup-1'' = Some \<lparr>buffer = [''hi'', ''hi'']\<rparr>"
proof -
  let ?msg = "partial_transcript ''hi'' (dict_get chunk_hi ''timestamp'')"
  have 1: "chunk_hi ''type'' = Some (JStr ''audio_chunk'')"
    and 3: "chunk_hi ''audio'' = Some (JStr ''AQ=='')"
    and ts: "dict_get chunk_hi ''timestamp'' = JInt 7"
    by (simp_all add: chunk_hi_def dict_get_def)
  have 2: "get_transcriber pair_manager ''standup-1'' = Some \<lparr>buffer = [''hi'']\<rparr>"
    by (simp add: get_transcriber_def pair_manager_def)
  have 4: "b64decode example_env (JStr ''AQ=='') = Inr [1]"
    by (simp add: example_env_def)
  have 5: "transcribe_audio_file example_env [1] = Inr ''hi''"
    by (simp add: transcribe_audio_file_def example_env_def)
  have 6: "active_connections pair_manager ''standup-1'' = Some [1, 2]"
    by (simp add: pair_manager_def)
  have 7: "send_json example_env 1 ?msg = None" and 8: "send_json example_env 2 ?msg \<noteq> None"
    by (simp_all add: example_env_def)
  from 7 have 9: "\<exists>c\<in>set [1, 2]. send_json example_env c ?msg = None" by simp
  note th = transcribed_text_appended_and_broadcast[where dat=chunk_hi and w=1, OF 1 2 3 4 5]
  from th 6 have a: "snd (snd (handle_message example_env 1 ''standup-1'' chunk_hi pair_manager))
     = map (\<lambda>c. SendJson c ?msg (send_json example_env c ?msg = None)) [1, 2]"
    by blast
  from th 6 9 have b: "get_transcriber
       (fst (snd (handle_message example_env 1 ''standup-1'' chunk_hi pair_manager))) ''standup-1''
     = Some (\<lparr>buffer = [''hi'']\<rparr>\<lparr>buffer := buffer \<lparr>buffer = [''hi'']\<rparr> @ [''hi'']\<rparr>)"
    by blast
  from a 7 8 have a': "snd (snd (handle_message example_env 1 ''standup-1'' chunk_hi pair_manager))
     = [SendJson 1 (partial_transcript ''hi'' (JInt 7)) True,
        SendJson 2 (partial_transcript ''hi'' (JInt 7)) False]"
    by (simp add: ts)
  from b have b': "get_transcriber
       (fst (snd (handle_message example_env 1 ''standup-1'' chunk_hi pair_manager))) ''standup-1''
     = Some \<lparr>buffer = [''hi'', ''hi'']\<rparr>"
    by simp
  from 1 2 3 4 5 6 a' b' show ?thesis by blast
qed

text \<open>
  The empty text is appended and broadcast like any other: after a chunk recognised as the
  empty text, the buffer has a second, empty fragment and the client has been sent a
  \<open>partial_transcript\<close> with the empty text.
\<close>

theorem empty_text_counterexample:
  "transcribe_audio_file example_env [0] = Inr [] \<and>
   fst (handle_message example_env 1 ''standup-1'' chunk_silence solo_manager) = Inr () \<and>
   get_transcriber (fst (snd (handle_message example_env 1 ''standup-1'' chunk_silence solo_manager)))
       ''standup-1'' = Some \<lparr>buffer = [''hi'', []]\<rparr> \<and>
   snd (snd (handle_message example_env 1 ''standup-1'' chunk_silence solo_manager))
     = [SendJson 1 (partial_transcript [] JNull) True]"
  by (simp add: handle_message_def dict_getitem_def dict_get_def get_transcriber_def
        process_audio_chunk_def transcribe_audio_file_def chunk_silence_def solo_manager_def
        example_env_def broadcast_def dict_contains_def disconnect_def)

subsection \<open>Finalize\<close>

text \<open>
  Claim C9. A finalize message for a meeting whose transcriber has an empty buffer calls the
  analyzer with the empty string and, when the analyzer returns, broadcasts
  \<open>analysis_complete\<close> with the empty string as transcript: the effects are the analyzer call
  followed by one send of this message to each client of the meeting, and the handler
  returns normally.
\<close>

theorem finalize_empty_buffer:
  assumes "dat ''type'' = Some (JStr ''finalize'')" and "get_transcriber s m = Some t"
    and "buffer t = []" and "analyze_transcript_with_ai e [] = Inr a"
  shows "fst (handle_message e w m dat s) = Inr () \<and>
         snd (snd (handle_message e w m dat s))
           = AnalyzerCall [] # snd (snd (broadcast e m (analysis_complete [] a) s)) \<and>
         (\<forall>conns. active_connections s m = Some conns \<longrightarrow>
            snd (snd (handle_message e w m dat s))
              = AnalyzerCall []
                  # map (\<lambda>c. SendJson c (analysis_complete [] a)
                                (send_json e c (analysis_complete [] a) = None)) conns)"
proof -
  have g: "get_full_transcript t = []"
    using assms(3) by (simp add: get_full_transcript_def)
  obtain r s1 effs where b: "broadcast e m (analysis_complete [] a) s = (r, s1, effs)"
    by (cases "broadcast e m (analysis_complete [] a) s") auto
  from assms(4) g have an: "analyze_transcript_with_ai e (get_full_transcript t) = Inr a"
    by simp
  from b g have b': "broadcast e m (analysis_complete (get_full_transcript t) a) s = (r, s1, effs)"
    by simp
  note h = handle_finalize_ok[where dat=dat and w=w, OF assms(1) assms(2) an b']
  have 1: "fst (handle_message e w m dat s) = Inr ()" by (simp add: h)
  have 2: "snd (snd (handle_message e w m dat s))
           = AnalyzerCall [] # snd (snd (broadcast e m (analysis_complete [] a) s))"
    by (simp add: h b g)
  have 3: "\<forall>conns. active_connections s m = Some conns \<longrightarrow>
            snd (snd (handle_message e w m dat s))
              = AnalyzerCall []
                  # map (\<lambda>c. SendJson c (analysis_complete [] a)
                                (send_json e c (analysis_complete [] a) = None)) conns"
    unfolding 2 by (simp add: broadcast_present)
  from 1 2 3 show ?thesis by blast
qed

theorem finalize_empty_buffer_witness:
  "finalize_msg ''type'' = Some (JStr ''finalize'') \<and>
   get_transcriber fresh_manager ''standup-1'' = Some \<lparr>buffer = []\<rparr> \<and>
   analyze_transcript_with_ai example_env []
     = Inr \<lparr>tasks = [], decisions = [], risks = [], follow_ups = [], summary = []\<rparr> \<and>
   snd (snd (handle_message example_env 1 ''standup-1'' finalize_msg fresh_manager))
     = [AnalyzerCall [],
        SendJson 1 (analysis_complete []
          \<lparr>tasks = [], decisions = [], risks = [], follow_ups = [], summary = []\<rparr>) True]"
proof -
  let ?a = "\<lparr>tasks = [], decisions = [], risks = [], follow_ups = [], summary = []\<rparr>"
  have 1: "finalize_msg ''type'' = Some (JStr ''finalize'')"
    by (simp add: finalize_msg_def)
  have 2: "get_transcriber fresh_manager ''standup-1'' = Some \<lparr>buffer = []\<rparr>"
    by (simp add: get_transcriber_def fresh_manager_def)
  have 3: "buffer \<lparr>buffer = []\<rparr> = []" by simp
  have 4: "analyze_transcript_with_ai example_env [] = Inr ?a"
    by (simp add: analyze_transcript_with_ai_def example_env_def)
  have 5: "active_connections fresh_manager ''standup-1'' = Some [1]"
    by (simp add: fresh_manager_def)
  have 6: "send_json example_env 1 (analysis_complete [] ?a) = None"
    by (simp add: example_env_def)
  from finalize_empty_buffer[where dat=finalize_msg and w=1, OF 1 2 3 4] 5
  have "snd (snd (handle_message example_env 1 ''standup-1'' finalize_msg fresh_manager))
     = AnalyzerCall []
         # map (\<lambda>c. SendJson c (analysis_complete [] ?a)
                       (send_json example_env c (analysis_complete [] ?a) = None)) [1]"
    by blast
  with 6
  have "snd (snd (handle_message example_env 1 ''standup-1'' finalize_msg fresh_manager))
     = [AnalyzerCall [], SendJson 1 (analysis_complete [] ?a) True]"
    by simp
  with 1 2 4 show ?thesis by blast
qed

text \<open>
  Claim C2. When the analyzer raises on a finalize message, the only effect is the analyzer
  call: nothing is sent. The manager is unchanged, so the transcriber of the meeting still
  holds the same buffer, also after the exception has left the endpoint. A later finalize
  for the meeting whose analyzer returns behaves exactly as it would have without the
  failure: it calls the analyzer with the same transcript and broadcasts
  \<open>analysis_complete\<close> with it.
\<close>

theorem finalize_analyzer_failure:
  assumes "dat ''type'' = Some (JStr ''finalize'')" and "get_transcriber s m = Some t"
    and "analyze_transcript_with_ai e (get_full_transcript t) = Inl x"
  shows "handle_message e w m dat s = (Inl x, s, [AnalyzerCall (get_full_transcript t)]) \<and>
         get_transcriber (fst (snd (handle_message e w m dat s))) m = Some t \<and>
         (x \<noteq> WebSocketDisconnect \<longrightarrow>
            message_loop w m ((e, Message dat) # rest) s
              = (Propagated x, s, [AnalyzerCall (get_full_transcript t)])) \<and>
         (dat' ''type'' = Some (JStr ''finalize'') \<and>
          analyze_transcript_with_ai e' (get_full_transcript t) = Inr a \<longrightarrow>
            handle_message e' w' m dat' (fst (snd (handle_message e w m dat s)))
              = handle_message e' w' m dat' s \<and>
            fst (handle_message e' w' m dat' (fst (snd (handle_message e w m dat s)))) = Inr () \<and>
            snd (snd (handle_message e' w' m dat' (fst (snd (handle_message e w m dat s)))))
              = AnalyzerCall (get_full_transcript t)
                  # snd (snd (broadcast e' m (analysis_complete (get_full_transcript t) a) s)))"
proof -
  note h = handle_finalize_failed[where dat=dat and w=w, OF assms]
  have 1: "get_transcriber (fst (snd (handle_message e w m dat s))) m = Some t"
    using assms(2) by (simp add: h)
  have 2: "x \<noteq> WebSocketDisconnect \<longrightarrow>
            message_loop w m ((e, Message dat) # rest) s
              = (Propagated x, s, [AnalyzerCall (get_full_transcript t)])"
    by (simp add: h)
  have 3: "dat' ''type'' = Some (JStr ''finalize'') \<and>
          analyze_transcript_with_ai e' (get_full_transcript t) = Inr a \<longrightarrow>
            handle_message e' w' m dat' (fst (snd (handle_message e w m dat s)))
              = handle_message e' w' m dat' s \<and>
            fst (handle_message e' w' m dat' (fst (snd (handle_message e w m dat s)))) = Inr () \<and>
            snd (snd (handle_message e' w' m dat' (fst (snd (handle_message e w m dat s)))))
              = AnalyzerCall (get_full_transcript t)
                  # snd (snd (broadcast e' m (analysis_complete (get_full_transcript t) a) s))"
  proof (intro impI, elim conjE)
    assume f: "dat' ''type'' = Some (JStr ''finalize'')"
      and an: "analyze_transcript_with_ai e' (get_full_transcript t) = Inr a"
    obtain r s1 effs where
      b: "broadcast e' m (analysis_complete (get_full_transcript t) a) s = (r, s1, effs)"
      by (cases "broadcast e' m (analysis_complete (get_full_transcript t) a) s") auto
    note k = handle_finalize_ok[where dat=dat' and w=w', OF f assms(2) an b]
    show "handle_message e' w' m dat' (fst (snd (handle_message e w m dat s)))
              = handle_message e' w' m dat' s \<and>
            fst (handle_message e' w' m dat' (fst (snd (handle_message e w m dat s)))) = Inr () \<and>
            snd (snd (handle_message e' w' m dat' (fst (snd (handle_message e w m dat s)))))
              = AnalyzerCall (get_full_transcript t)
                  # snd (snd (broadcast e' m (analysis_complete (get_full_transcript t) a) s))"
      by (simp add: h k b)
  qed
  from h 1 2 3 show ?thesis by blast
qed

theorem finalize_analyzer_failure_witness:
  "finalize_msg ''type'' = Some (JStr ''finalize'') \<and>
   get_transcriber bad_manager ''standup-1'' = Some \<lparr>buffer = [''bad'']\<rparr> \<and>
   analyze_transcript_with_ai example_env (get_full_transcript \<lparr>buffer = [''bad'']\<rparr>)
     = Inl (HTTPException 500 ''Failed to parse AI response: Expecting value'') \<and>
   analyze_transcript_with_ai lenient_env (get_full_transcript \<lparr>buffer = [''bad'']\<rparr>)
     = Inr \<lparr>tasks = [], decisions = [], risks = [], follow_ups = [], summary = ''bad''\<rparr> \<and>
   handle_message example_env 1 ''standup-1'' finalize_msg bad_manager
     = (Inl (HTTPException 500 ''Failed to parse AI response: Expecting value''), bad_manager,
        [AnalyzerCall ''bad'']) \<and>
   handle_message lenient_env 3 ''standup-1'' finalize_msg
       (fst (snd (handle_message example_env 1 ''standup-1'' finalize_msg bad_manager)))
     = handle_message lenient_env 3 ''standup-1'' finalize_msg bad_manager"
proof -
  let ?t = "\<lparr>buffer = [''bad'']\<rparr>"
  let ?x = "HTTPException 500 ''Failed to parse AI response: Expecting value''"
  let ?a = "\<lparr>tasks = [], decisions = [], risks = [], follow_ups = [], summary = ''bad''\<rparr>"
  have 1: "finalize_msg ''type'' = Some (JStr ''finalize'')"
    by (simp add: finalize_msg_def)
  have 2: "get_transcriber bad_manager ''standup-1'' = Some ?t"
    by (simp add: get_transcriber_def bad_manager_def)
  have g: "get_full_transcript ?t = ''bad''"
    by (simp add: get_full_transcript_def)
  have 3: "analyze_transcript_with_ai example_env (get_full_transcript ?t) = Inl ?x"
    unfolding g by (simp add: analyze_transcript_with_ai_def example_env_def)
  have 4: "analyze_transcript_with_ai lenient_env (get_full_transcript ?t) = Inr ?a"
    unfolding g by (simp add: analyze_transcript_with_ai_def example_env_def lenient_env_def)
  note th = finalize_analyzer_failure[where dat=finalize_msg and w=1 and dat'=finalize_msg
      and e'=lenient_env and a="?a" and w'=3, OF 1 2 3]
  from th have 5: "handle_message example_env 1 ''standup-1'' finalize_msg bad_manager
     = (Inl ?x, bad_manager, [AnalyzerCall (get_full_transcript ?t)])"
    by blast
  from th 1 4 have 6: "handle_message lenient_env 3 ''standup-1'' finalize_msg
       (fst (snd (handle_message example_env 1 ''standup-1'' finalize_msg bad_manager)))
     = handle_message lenient_env 3 ''standup-1'' finalize_msg bad_manager"
    by blast
  from 5 have 7: "handle_message example_env 1 ''standup-1'' finalize_msg bad_manager
     = (Inl ?x, bad_manager, [AnalyzerCall ''bad''])"
    unfolding g .
  from 1 2 3 4 6 7 show ?thesis by blast
qed

subsection \<open>Missing keys\<close>

text \<open>
  Claim C10, as the code has it. A received dictionary without the key \<open>type\<close> raises
  \<open>KeyError\<close>, and so does an \<open>audio_chunk\<close> dictionary without the key \<open>audio\<close> when the
  meeting has a transcriber in the registry. The handler of the loop catches only
  \<open>WebSocketDisconnect\<close>, so the exception leaves the endpoint: the manager is unchanged (no
  \<open>disconnect\<close>), nothing is sent (no \<open>participant_left\<close>) and the messages after it are not
  processed. When the meeting has no transcriber, the \<open>audio\<close> key of an \<open>audio_chunk\<close> is not
  read: the message is ignored and the loop goes on.
\<close>

theorem key_error_leaves_loop:
  "(dat ''type'' = None \<longrightarrow>
      message_loop w m ((e, Message dat) # rest) s = (Propagated (KeyError ''type''), s, [])) \<and>
   (dat ''type'' = Some (JStr ''audio_chunk'') \<and> dat ''audio'' = None \<and>
    get_transcriber s m \<noteq> None \<longrightarrow>
      message_loop w m ((e, Message dat) # rest) s = (Propagated (KeyError ''audio''), s, [])) \<and>
   (dat ''type'' = Some (JStr ''audio_chunk'') \<and> get_transcriber s m = None \<longrightarrow>
      message_loop w m ((e, Message dat) # rest) s = message_loop w m rest s)"
proof -
  have 1: "dat ''type'' = None \<longrightarrow>
      message_loop w m ((e, Message dat) # rest) s = (Propagated (KeyError ''type''), s, [])"
    by (simp add: handle_no_type)
  have 2: "dat ''type'' = Some (JStr ''audio_chunk'') \<and> dat ''audio'' = None \<and>
    get_transcriber s m \<noteq> None \<longrightarrow>
      message_loop w m ((e, Message dat) # rest) s = (Propagated (KeyError ''audio''), s, [])"
    by (auto simp add: handle_chunk_no_audio)
  have 3: "dat ''type'' = Some (JStr ''audio_chunk'') \<and> get_transcriber s m = None \<longrightarrow>
      message_loop w m ((e, Message dat) # rest) s = message_loop w m rest s"
    by (simp add: handle_chunk_no_session split: prod.splits)
  from 1 2 3 show ?thesis by blast
qed

theorem key_error_leaves_loop_witness:
  "ping_without_type ''type'' = None \<and>
   message_loop 1 ''standup-1''
       [(example_env, Message ping_without_type), (example_env, Message ping_msg)] pair_manager
     = (Propagated (KeyError ''type''), pair_manager, []) \<and>
   chunk_without_audio ''type'' = Some (JStr ''audio_chunk'') \<and>
   chunk_without_audio ''audio'' = None \<and>
   get_transcriber pair_manager ''standup-1'' \<noteq> None \<and>
   message_loop 1 ''standup-1''
       [(example_env, Message chunk_without_audio), (example_env, Message ping_msg)] pair_manager
     = (Propagated (KeyError ''audio''), pair_manager, []) \<and>
   get_transcriber ConnectionManager_init ''standup-1'' = None \<and>
   message_loop 1 ''standup-1'' [(example_env, Message chunk_without_audio)] ConnectionManager_init
     = message_loop 1 ''standup-1'' [] ConnectionManager_init"
proof -
  have 1: "ping_without_type ''type'' = None"
    by (simp add: ping_without_type_def)
  have 2: "chunk_without_audio ''type'' = Some (JStr ''audio_chunk'')"
    and 3: "chunk_without_audio ''audio'' = None"
    by (simp_all add: chunk_without_audio_def)
  have 4: "get_transcriber pair_manager ''standup-1'' \<noteq> None"
    by (simp add: get_transcriber_def pair_manager_def)
  have 5: "get_transcriber ConnectionManager_init ''standup-1'' = None"
    by (simp add: get_transcriber_def ConnectionManager_init_def)
  from key_error_leaves_loop[where dat=ping_without_type and w=1 and m="''standup-1''"
      and e=example_env and rest="[(example_env, Message ping_msg)]" and s=pair_manager] 1
  have a: "message_loop 1 ''standup-1''
       [(example_env, Message ping_without_type), (example_env, Message ping_msg)] pair_manager
     = (Propagated (KeyError ''type''), pair_manager, [])"
    by blast
  from key_error_leaves_loop[where dat=chunk_without_audio and w=1 and m="''standup-1''"
      and e=example_env and rest="[(example_env, Message ping_msg)]" and s=pair_manager] 2 3 4
  have b: "message_loop 1 ''standup-1''
       [(example_env, Message chunk_without_audio), (example_env, Message ping_msg)] pair_manager
     = (Propagated (KeyError ''audio''), pair_manager, [])"
    by blast
  from key_error_leaves_loop[where dat=chunk_without_audio and w=1 and m="''standup-1''"
      and e=example_env and rest="[]" and s=ConnectionManager_init] 2 5
  have c: "message_loop 1 ''standup-1'' [(example_env, Message chunk_without_audio)]
             ConnectionManager_init
     = message_loop 1 ''standup-1'' [] ConnectionManager_init"
    by blast
  from 1 2 3 4 5 a b c show ?thesis by blast
qed

text \<open>
  An \<open>audio_chunk\<close> without \<open>audio\<close> that raises nothing: connection 2 joins alone, the
  broadcast of its first chunk fails and removes it, which deletes the meeting; its next
  chunk has no \<open>audio\<close> key, finds no transcriber and is ignored, and the loop waits for the
  next message.
\<close>

theorem missing_audio_ignored_counterexample:
  "chunk_without_audio ''type'' = Some (JStr ''audio_chunk'') \<and>
   chunk_without_audio ''audio'' = None \<and>
   websocket_endpoint example_env 2 ''standup-1''
       [(example_env, Message chunk_hi), (example_env, Message chunk_without_audio)]
       ConnectionManager_init
     = (Awaiting, ConnectionManager_init, [SendJson 2 (partial_transcript ''hi'' (JInt 7)) False])"
  by (simp add: websocket_endpoint_def connect_def handle_message_def dict_getitem_def dict_get_def
        get_transcriber_def process_audio_chunk_def transcribe_audio_file_def chunk_hi_def
        chunk_without_audio_def ConnectionManager_init_def RealtimeTranscriber_init_def
        example_env_def broadcast_def dict_contains_def dict_delitem_def disconnect_def
        set_add_def set_discard_def)

end
